theory Spec2Isabelle
  imports Main
begin

section \<open>Errors, panics and results\<close>

text \<open>
  The deserializer reports failure through the single \<open>err\<close> field of its cursor. The
  messages built with \<open>fmt.Sprintf\<close> are kept as constructors carrying the message's
  arguments. \<open>NumError\<close> is the error of \<open>strconv\<close> (function name, input, cause).
\<close>

datatype numErr = ErrSyntax | ErrRange

datatype isize = W8 | W16 | W32 | W64 | WInt

datatype fsize = F32 | F64

datatype kind = KBool | KInt isize | KUint isize | KFloat fsize | KString | KStruct | KArray
  | KSlice | KOther

datatype error =
    EofError
  | NotJsonArray kind
  | ExpectedValueInLoop char nat
  | KeyNotFound string
  | ExpectedValue char
  | NumError string string numErr
  | EmptyValue
  | ExpectedBool string
  | ExpectedStringStart char
  | ExpectedStringEnd char
  | ExpectedNull string
  | PeekedWhitespace
  | ExpectedPrimitive char
  | ExpectedByte char char

text \<open>
  A Go panic (an index out of range, a \<open>reflect\<close> call on a value of the wrong kind, the
  serializer's own \<open>panic\<close>) ends the call without a result. A loop that has not finished
  when the step budget is used up is \<open>OutOfFuel\<close>.
\<close>

datatype panic = IndexOutOfRange | ReflectPanic string | Unserializable kind

datatype 'a res = OutOfFuel | Panic panic | Ret 'a

section \<open>The cursor\<close>

record deserializer =
  json :: string
  pos :: nat
  eof :: int
  err :: "error option"

definition makeDeserializer :: "string \<Rightarrow> deserializer" where
  "makeDeserializer js = \<lparr>json = js, pos = 0, eof = int (length js) - 1, err = None\<rparr>"

definition hasError :: "deserializer \<Rightarrow> bool" where
  "hasError d = (err d \<noteq> None)"

text \<open>\<open>atEof\<close> stores the end-of-input error whenever it answers true.\<close>

definition atEof :: "int \<Rightarrow> deserializer \<Rightarrow> bool \<times> deserializer" where
  "atEof offset d =
     (if int (pos d) + offset > eof d then (True, d\<lparr>err := Some EofError\<rparr>) else (False, d))"

definition peekCurrent :: "deserializer \<Rightarrow> char \<times> deserializer" where
  "peekCurrent d =
     (let (e, d1) = atEof 0 d in
      if e then (CHR 0x00, d1) else (json d1 ! pos d1, d1))"

definition peek :: "nat \<Rightarrow> deserializer \<Rightarrow> string \<times> deserializer" where
  "peek offset d =
     (let (e, d1) = atEof (1 + int offset) d in
      if e then ([], d1) else (take (1 + offset) (drop (pos d1) (json d1)), d1))"

definition consume :: "deserializer \<Rightarrow> char \<times> deserializer" where
  "consume d =
     (let (e, d1) = atEof 0 d in
      if e then (CHR 0x00, d1) else (json d1 ! pos d1, d1\<lparr>pos := pos d1 + 1\<rparr>))"

definition consumeByte :: "char \<Rightarrow> deserializer \<Rightarrow> deserializer" where
  "consumeByte b d =
     (let (e, d1) = atEof 0 d in
      if e then d1
      else if json d1 ! pos d1 \<noteq> b then d1\<lparr>err := Some (ExpectedByte b (json d1 ! pos d1))\<rparr>
      else snd (consume d1))"

definition isWhitespace :: "char \<Rightarrow> bool" where
  "isWhitespace b = (b = CHR 0x09 \<or> b = CHR '' '' \<or> b = CHR 0x0A \<or> b = CHR 0x0D)"

function consumeWhitespace :: "deserializer \<Rightarrow> deserializer" where
  "consumeWhitespace d =
     (if \<not> fst (atEof 0 d) \<and> isWhitespace (json d ! pos d)
      then consumeWhitespace (snd (consume d))
      else snd (atEof 0 d))"
  by pat_completeness auto
termination
  by (relation "measure (\<lambda>d. nat (eof d + 1 - int (pos d)))")
     (auto simp: atEof_def consume_def split: if_splits)

declare consumeWhitespace.simps [simp del]

text \<open>
  \<open>consumeUntil\<close> collects the bytes before the next \<open>b\<close>; when the input ends first it
  returns the empty string (and \<open>atEof\<close> has stored the error).
\<close>

function consumeUntilLoop :: "char \<Rightarrow> string \<Rightarrow> deserializer \<Rightarrow> string \<times> deserializer" where
  "consumeUntilLoop b sb d =
     (if json d ! pos d \<noteq> b
      then (let d1 = d\<lparr>pos := pos d + 1\<rparr> in
            if fst (atEof 0 d1) then ([], snd (atEof 0 d1))
            else consumeUntilLoop b (sb @ [json d ! pos d]) d1)
      else (sb, d))"
  by pat_completeness auto
termination
  by (relation "measure (\<lambda>(b, sb, d). nat (eof d + 1 - int (pos d)))")
     (auto simp: atEof_def split: if_splits)

declare consumeUntilLoop.simps [simp del]

definition consumeUntil :: "char \<Rightarrow> deserializer \<Rightarrow> string \<times> deserializer" where
  "consumeUntil b d =
     (let (e, d1) = atEof 0 d in
      if e then ([], d1) else consumeUntilLoop b [] d1)"

definition consumeKey :: "deserializer \<Rightarrow> string \<times> deserializer" where
  "consumeKey d =
     (let d1 = consumeByte (CHR 0x22) d;
          (s, d2) = consumeUntil (CHR 0x22) d1;
          d3 = consumeByte (CHR 0x22) d2;
          d4 = consumeByte (CHR '':'') d3;
          d5 = consumeWhitespace d4
      in (s, d5))"

definition isNull :: "deserializer \<Rightarrow> bool \<times> deserializer" where
  "isNull d =
     (let (e, d1) = atEof 4 d in
      if e then (False, d1)
      else (let (s, d2) = peek 4 d1 in (s = ''null'', d2)))"

text \<open>
  The lookahead test of the deserializer (Go method \<open>isPrimitive\<close> of the cursor; the
  function of the same name on kinds is \<open>isPrimitive\<close> below).
\<close>

definition byteval :: "char \<Rightarrow> nat" where
  "byteval b = of_char b"

definition isPrimitiveAhead :: "deserializer \<Rightarrow> bool \<times> deserializer" where
  "isPrimitiveAhead d =
     (let (b, d1) = peekCurrent d in
      ((byteval b \<ge> byteval (CHR ''a'') \<and> byteval b \<le> byteval (CHR ''z''))
       \<or> (byteval b \<ge> byteval (CHR ''A'') \<and> byteval b \<le> byteval (CHR ''Z''))
       \<or> (byteval b \<ge> byteval (CHR ''0'') \<and> byteval b \<le> byteval (CHR ''9''))
       \<or> b = CHR 0x22 \<or> b = CHR ''-'', d1))"

datatype PrimitiveType = Invalid | String | Number | Bool | Nil

definition parsePrimitiveType :: "deserializer \<Rightarrow> (error + PrimitiveType) \<times> deserializer" where
  "parsePrimitiveType d =
     (let (b, d1) = peekCurrent d in
      if isWhitespace b then (Inl PeekedWhitespace, d1)
      else (let (c, d2) = peekCurrent d1 in
        if c = CHR 0x22 then (Inr String, d2)
        else if c \<in> set ''-0123456789'' then (Inr Number, d2)
        else if c = CHR ''t'' \<or> c = CHR ''f'' then (Inr Bool, d2)
        else if c = CHR ''n'' then (Inr Nil, d2)
        else (let (c', d3) = peekCurrent d2 in (Inl (ExpectedPrimitive c'), d3))))"

text \<open>
  \<open>consumeUntilTerminator\<close>: the loop runs until the current byte is one of \<open>}\<close>, \<open>,\<close>,
  \<open>]\<close>. At the end of the input \<open>peekCurrent\<close> answers the zero byte and \<open>consume\<close> does
  not move, so the loop needs a step budget.
\<close>

definition TrimRight :: "string \<Rightarrow> string \<Rightarrow> string" where
  "TrimRight s cutset = rev (dropWhile (\<lambda>c. c \<in> set cutset) (rev s))"

fun consumeUntilTerminatorLoop ::
  "nat \<Rightarrow> char \<Rightarrow> string \<Rightarrow> deserializer \<Rightarrow> (string \<times> char \<times> deserializer) res" where
  "consumeUntilTerminatorLoop 0 b sb d = OutOfFuel"
| "consumeUntilTerminatorLoop (Suc n) b sb d =
     (if b \<noteq> CHR ''}'' \<and> b \<noteq> CHR '','' \<and> b \<noteq> CHR '']''
      then (let d1 = snd (consume d); (b1, d2) = peekCurrent d1
            in consumeUntilTerminatorLoop n b1 (sb @ [b]) d2)
      else Ret (sb, b, d))"

declare consumeUntilTerminatorLoop.simps [simp del]

definition consumeUntilTerminator ::
  "nat \<Rightarrow> deserializer \<Rightarrow> (string \<times> char \<times> deserializer) res" where
  "consumeUntilTerminator n d =
     (let (b, d1) = peekCurrent d in
      case consumeUntilTerminatorLoop n b [] d1 of
        OutOfFuel \<Rightarrow> OutOfFuel
      | Panic p \<Rightarrow> Panic p
      | Ret (sb, b1, d2) \<Rightarrow> Ret (TrimRight sb [CHR '' '', CHR 0x0A, CHR 0x09, CHR 0x0D], b1, d2))"

section \<open>Literal parsers\<close>

text \<open>
  \<open>strconv.ParseUint(s, 10, 64)\<close> and \<open>strconv.ParseInt(s, 10, 64)\<close> of the Go standard
  library, which the repository calls: decimal digits only, an optional sign for
  \<open>ParseInt\<close>, a syntax error on the empty string or a byte that is no digit, a range
  error when the value leaves 64 bits.
\<close>

definition isDigit :: "char \<Rightarrow> bool" where
  "isDigit c = (byteval (CHR ''0'') \<le> byteval c \<and> byteval c \<le> byteval (CHR ''9''))"

fun ParseUintLoop :: "string \<Rightarrow> int \<Rightarrow> numErr + int" where
  "ParseUintLoop [] n = Inr n"
| "ParseUintLoop (c # cs) n =
     (if \<not> isDigit c then Inl ErrSyntax
      else if n \<ge> (2 ^ 64 - 1) div 10 + 1 then Inl ErrRange
      else (let n1 = n * 10 + int (byteval c - byteval (CHR ''0'')) in
            if n1 > 2 ^ 64 - 1 then Inl ErrRange else ParseUintLoop cs n1))"

definition ParseUint :: "string \<Rightarrow> numErr + int" where
  "ParseUint s = (if s = [] then Inl ErrSyntax else ParseUintLoop s 0)"

definition ParseInt :: "string \<Rightarrow> numErr + int" where
  "ParseInt s =
     (if s = [] then Inl ErrSyntax
      else (let neg = (hd s = CHR ''-'');
                s1 = (if hd s = CHR ''+'' \<or> hd s = CHR ''-'' then tl s else s)
            in case ParseUint s1 of
                 Inl ErrSyntax \<Rightarrow> Inl ErrSyntax
               | Inl ErrRange \<Rightarrow> Inl ErrRange
               | Inr un \<Rightarrow>
                   if \<not> neg \<and> un \<ge> 2 ^ 63 then Inl ErrRange
                   else if neg \<and> un > 2 ^ 63 then Inl ErrRange
                   else Inr (if neg then - un else un)))"

definition parseInt :: "string \<Rightarrow> error + int" where
  "parseInt v = (case ParseInt v of Inl e \<Rightarrow> Inl (NumError ''ParseInt'' v e) | Inr n \<Rightarrow> Inr n)"

definition parseUint :: "string \<Rightarrow> error + int" where
  "parseUint v = (case ParseUint v of Inl e \<Rightarrow> Inl (NumError ''ParseUint'' v e) | Inr n \<Rightarrow> Inr n)"

definition parseBool :: "string \<Rightarrow> error + bool" where
  "parseBool v =
     (if length v = 0 then Inl EmptyValue
      else if v = ''true'' then Inr True
      else if v = ''false'' then Inr False
      else Inl (ExpectedBool v))"

definition parseNil :: "string \<Rightarrow> error option" where
  "parseNil v =
     (if length v = 0 then Some EmptyValue
      else if v \<noteq> ''null'' then Some (ExpectedNull v)
      else None)"

text \<open>
  \<open>unescapeString\<close> walks the string by index. The byte after a backslash is read
  without a bounds check: \<open>None\<close> is Go's index-out-of-range panic.
\<close>

definition byteAt :: "string \<Rightarrow> nat \<Rightarrow> char option" where
  "byteAt s i = (if i < length s then Some (s ! i) else None)"

function unescapeLoop :: "string \<Rightarrow> nat \<Rightarrow> string \<Rightarrow> string option" where
  "unescapeLoop s i sb =
     (if i < length s then
        (let delimiter = s ! i; i1 = i + 1 in
         if delimiter = CHR 0x5C then
           (case byteAt s i1 of
              None \<Rightarrow> None
            | Some ch \<Rightarrow>
                (let i2 = i1 + 1 in
                 if ch = CHR 0x5C \<or> ch = CHR ''/'' \<or> ch = CHR 0x22 \<or> ch = CHR 0x27
                   then unescapeLoop s i2 (sb @ [ch])
                 else if ch = CHR ''n'' then unescapeLoop s i2 (sb @ [CHR 0x0A])
                 else if ch = CHR ''r'' then unescapeLoop s i2 (sb @ [CHR 0x0D])
                 else if ch = CHR ''b'' then unescapeLoop s i2 (sb @ [CHR 0x08])
                 else if ch = CHR ''t'' then unescapeLoop s i2 (sb @ [CHR 0x09])
                 else if ch = CHR ''f'' then unescapeLoop s i2 (sb @ [CHR 0x0C])
                 else unescapeLoop s i2 sb))
         else unescapeLoop s i1 (sb @ [delimiter]))
      else Some sb)"
  by pat_completeness auto
termination
  by (relation "measure (\<lambda>(s, i, sb). length s - i)") auto

declare unescapeLoop.simps [simp del]

definition unescapeString :: "string \<Rightarrow> string option" where
  "unescapeString s = unescapeLoop s 0 []"

text \<open>
  \<open>parseString\<close> indexes its argument at \<open>0\<close> and, after dropping the first byte, at
  \<open>len - 1\<close>; both panic on an empty slice.
\<close>

definition parseString :: "string \<Rightarrow> (error + string) res" where
  "parseString v =
     (case byteAt v 0 of
        None \<Rightarrow> Panic IndexOutOfRange
      | Some c0 \<Rightarrow>
          if c0 \<noteq> CHR 0x22 then Ret (Inl (ExpectedStringStart c0))
          else (let v1 = drop 1 v in
            if length v1 = 0 then Panic IndexOutOfRange
            else if v1 ! (length v1 - 1) \<noteq> CHR 0x22
              then Ret (Inl (ExpectedStringEnd (v1 ! (length v1 - 1))))
            else (let v2 = take (length v1 - 1) v1 in
              case unescapeString v2 of
                None \<Rightarrow> Panic IndexOutOfRange
              | Some strValue \<Rightarrow> Ret (Inr strValue))))"

section \<open>Types and values seen through reflection\<close>

text \<open>
  A target or source value is a tree. A slice is \<open>None\<close> when nil, otherwise its backing
  array (whose length is the capacity) and its length; slices of one target are taken
  not to share backing arrays. Struct fields are taken to be exported and not embedded.
  Integer kinds carry their width; \<open>int\<close> and \<open>uint\<close> are 64 bits wide. Unsigned
  values are non-negative integers. The carrier \<open>'f\<close>
  of floating-point values and the library functions on it are parameters (\<open>lib\<close>).
\<close>

datatype ty = TBool | TInt isize | TUint isize | TFloat fsize | TString
  | TStruct "(string \<times> ty) list" | TArray nat ty | TSlice ty | TOther

datatype 'f val = VBool bool | VInt isize int | VUint isize int | VFloat fsize 'f
  | VString string | VStruct "(string \<times> 'f val) list" | VArray ty "'f val list"
  | VSlice ty "('f val list \<times> nat) option" | VOther

record 'f lib =
  ParseFloat :: "string \<Rightarrow> numErr + 'f"
  toFloat32 :: "'f \<Rightarrow> 'f"
  FormatFloat :: "'f \<Rightarrow> nat \<Rightarrow> string"
  zeroFloat :: "'f"
  appendCap :: "nat \<Rightarrow> nat \<Rightarrow> nat"

definition parseFloat :: "'f lib \<Rightarrow> string \<Rightarrow> error + 'f" where
  "parseFloat L v =
     (case ParseFloat L v of Inl e \<Rightarrow> Inl (NumError ''ParseFloat'' v e) | Inr f \<Rightarrow> Inr f)"

fun bits :: "isize \<Rightarrow> nat" where
  "bits W8 = 8" | "bits W16 = 16" | "bits W32 = 32" | "bits W64 = 64" | "bits WInt = 64"

fun Kind :: "'f val \<Rightarrow> kind" where
  "Kind (VBool _) = KBool"
| "Kind (VInt w _) = KInt w"
| "Kind (VUint w _) = KUint w"
| "Kind (VFloat w _) = KFloat w"
| "Kind (VString _) = KString"
| "Kind (VStruct _) = KStruct"
| "Kind (VArray _ _) = KArray"
| "Kind (VSlice _ _) = KSlice"
| "Kind VOther = KOther"

fun kindOfTy :: "ty \<Rightarrow> kind" where
  "kindOfTy TBool = KBool"
| "kindOfTy (TInt w) = KInt w"
| "kindOfTy (TUint w) = KUint w"
| "kindOfTy (TFloat w) = KFloat w"
| "kindOfTy TString = KString"
| "kindOfTy (TStruct _) = KStruct"
| "kindOfTy (TArray _ _) = KArray"
| "kindOfTy (TSlice _) = KSlice"
| "kindOfTy TOther = KOther"

fun Zero :: "'f lib \<Rightarrow> ty \<Rightarrow> 'f val" and ZeroFields :: "'f lib \<Rightarrow> (string \<times> ty) list \<Rightarrow> (string \<times> 'f val) list" where
  "Zero L TBool = VBool False"
| "Zero L (TInt w) = VInt w 0"
| "Zero L (TUint w) = VUint w 0"
| "Zero L (TFloat w) = VFloat w (zeroFloat L)"
| "Zero L TString = VString []"
| "Zero L (TStruct fs) = VStruct (ZeroFields L fs)"
| "Zero L (TArray n t) = VArray t (replicate n (Zero L t))"
| "Zero L (TSlice t) = VSlice t None"
| "Zero L TOther = VOther"
| "ZeroFields L [] = []"
| "ZeroFields L (f # fs) = (fst f, Zero L (snd f)) # ZeroFields L fs"

text \<open>The two classifiers of \<open>reflect_utils.go\<close>.\<close>

fun isJsonArray :: "kind \<Rightarrow> bool" where
  "isJsonArray t = (t = KArray \<or> t = KSlice)"

fun isPrimitive :: "kind \<Rightarrow> bool" where
  "isPrimitive KBool = True"
| "isPrimitive (KInt _) = True"
| "isPrimitive (KUint _) = True"
| "isPrimitive (KFloat _) = True"
| "isPrimitive KString = True"
| "isPrimitive _ = False"

section \<open>Reflection operations used by the deserializer\<close>

definition bindRes :: "'a res \<Rightarrow> ('a \<Rightarrow> 'b res) \<Rightarrow> 'b res" where
  "bindRes m f = (case m of OutOfFuel \<Rightarrow> OutOfFuel | Panic p \<Rightarrow> Panic p | Ret x \<Rightarrow> f x)"

text \<open>
  \<open>Len\<close>, \<open>Cap\<close>, \<open>Index\<close> and the element type are asked of arrays and slices only
  (\<open>deserializeArray\<close> checks the kind first, \<open>Index\<close> is guarded by \<open>arrayIndex < Len\<close>).
\<close>

fun Len :: "'f val \<Rightarrow> nat" where
  "Len (VArray t xs) = length xs"
| "Len (VSlice t None) = 0"
| "Len (VSlice t (Some (xs, n))) = n"
| "Len _ = 0"

fun Cap :: "'f val \<Rightarrow> nat" where
  "Cap (VArray t xs) = length xs"
| "Cap (VSlice t None) = 0"
| "Cap (VSlice t (Some (xs, n))) = length xs"
| "Cap _ = 0"

fun Elem :: "'f val \<Rightarrow> ty" where
  "Elem (VArray t xs) = t"
| "Elem (VSlice t sl) = t"
| "Elem _ = TOther"

fun Index :: "'f val \<Rightarrow> nat \<Rightarrow> 'f val" where
  "Index (VArray t xs) i = xs ! i"
| "Index (VSlice t (Some (xs, n))) i = xs ! i"
| "Index _ i = VOther"

text \<open>Writing through the handle \<open>v.Index(i)\<close>.\<close>

fun setIndex :: "'f val \<Rightarrow> nat \<Rightarrow> 'f val \<Rightarrow> 'f val" where
  "setIndex (VArray t xs) i x = VArray t (xs[i := x])"
| "setIndex (VSlice t (Some (xs, n))) i x = VSlice t (Some (xs[i := x], n))"
| "setIndex v i x = v"

fun SetLen :: "'f val \<Rightarrow> nat \<Rightarrow> 'f val res" where
  "SetLen (VSlice t (Some (xs, l))) n =
     (if n > length xs then Panic (ReflectPanic ''SetLen'') else Ret (VSlice t (Some (xs, n))))"
| "SetLen (VSlice t None) n =
     (if n > 0 then Panic (ReflectPanic ''SetLen'') else Ret (VSlice t None))"
| "SetLen v n = Panic (ReflectPanic ''SetLen'')"

text \<open>
  \<open>reflect.MakeSlice(v.Type(), v.Len(), newcap)\<close>, \<open>reflect.Copy(newv, v)\<close> and
  \<open>v.Set(newv)\<close>: a fresh zeroed backing array of \<open>newcap\<close> elements that starts with
  the \<open>Len\<close> elements of the old one.
\<close>

fun regrow :: "'f lib \<Rightarrow> 'f val \<Rightarrow> nat \<Rightarrow> 'f val res" where
  "regrow L (VSlice t sl) newcap =
     (let (xs, n) = (case sl of None \<Rightarrow> ([], 0) | Some p \<Rightarrow> p) in
      if n > newcap then Panic (ReflectPanic ''MakeSlice'')
      else Ret (VSlice t (Some (take n xs @ replicate (newcap - n) (Zero L t), n))))"
| "regrow L v newcap = Panic (ReflectPanic ''MakeSlice'')"

text \<open>
  \<open>v.Set(reflect.Append(v, reflect.ValueOf(x)))\<close> for an \<open>x\<close> of type \<open>tx\<close>: a panic
  unless \<open>v\<close> is a slice whose element type is \<open>tx\<close>; the element goes to index \<open>Len\<close>,
  into the same backing array while the capacity suffices, otherwise into a larger copy
  whose capacity the runtime chooses (\<open>appendCap\<close>).
\<close>

fun Append :: "'f lib \<Rightarrow> 'f val \<Rightarrow> 'f val \<Rightarrow> ty \<Rightarrow> 'f val res" where
  "Append L (VSlice t sl) x tx =
     (let (xs, n) = (case sl of None \<Rightarrow> ([], 0) | Some p \<Rightarrow> p) in
      if t \<noteq> tx then Panic (ReflectPanic ''Set'')
      else if n + 1 \<le> length xs then Ret (VSlice t (Some (xs[n := x], n + 1)))
      else Ret (VSlice t (Some (take n xs @ [x]
             @ replicate (appendCap L (length xs) (n + 1) - (n + 1)) (Zero L t), n + 1))))"
| "Append L v x tx = Panic (ReflectPanic ''Append'')"

fun SetUint :: "'f val \<Rightarrow> int \<Rightarrow> 'f val res" where
  "SetUint (VUint w old) x = Ret (VUint w (x mod 2 ^ bits w))"
| "SetUint v x = Panic (ReflectPanic ''SetUint'')"

fun SetInt :: "'f val \<Rightarrow> int \<Rightarrow> 'f val res" where
  "SetInt (VInt w old) x =
     Ret (VInt w ((x + 2 ^ (bits w - 1)) mod 2 ^ bits w - 2 ^ (bits w - 1)))"
| "SetInt v x = Panic (ReflectPanic ''SetInt'')"

fun SetFloat :: "'f lib \<Rightarrow> 'f val \<Rightarrow> 'f \<Rightarrow> 'f val res" where
  "SetFloat L (VFloat F32 old) x = Ret (VFloat F32 (toFloat32 L x))"
| "SetFloat L (VFloat F64 old) x = Ret (VFloat F64 x)"
| "SetFloat L v x = Panic (ReflectPanic ''SetFloat'')"

fun SetBool :: "'f val \<Rightarrow> bool \<Rightarrow> 'f val res" where
  "SetBool (VBool old) b = Ret (VBool b)"
| "SetBool v b = Panic (ReflectPanic ''SetBool'')"

fun SetString :: "'f val \<Rightarrow> string \<Rightarrow> 'f val res" where
  "SetString (VString old) s = Ret (VString s)"
| "SetString v s = Panic (ReflectPanic ''SetString'')"

fun FieldByName :: "'f val \<Rightarrow> string \<Rightarrow> 'f val option res" where
  "FieldByName (VStruct fs) key = Ret (map_of fs key)"
| "FieldByName v key = Panic (ReflectPanic ''FieldByName'')"

text \<open>Writing through the handle \<open>v.FieldByName(key)\<close>.\<close>

fun updateField :: "(string \<times> 'f val) list \<Rightarrow> string \<Rightarrow> 'f val \<Rightarrow> (string \<times> 'f val) list" where
  "updateField [] key x = []"
| "updateField (f # fs) key x =
     (if fst f = key then (key, x) # fs else f # updateField fs key x)"

fun setField :: "'f val \<Rightarrow> string \<Rightarrow> 'f val \<Rightarrow> 'f val" where
  "setField (VStruct fs) key x = VStruct (updateField fs key x)"
| "setField v key x = v"

section \<open>The deserializer\<close>

text \<open>
  The walkers return the updated target and cursor. Where a piece of a loop body can
  execute Go's \<open>return\<close>, it answers a flag first: \<open>True\<close> when the enclosing function
  returned.
\<close>

text \<open>Lines 95 to 109 of \<open>deserializeArray\<close>: a slice grows before slot \<open>arrayIndex\<close> is used.\<close>

definition growSlice :: "'f lib \<Rightarrow> 'f val \<Rightarrow> nat \<Rightarrow> 'f val res" where
  "growSlice L v arrayIndex =
     (if Kind v = KSlice then
        bindRes (if arrayIndex \<ge> Cap v
                 then (let newcap = Cap v + Cap v div 2;
                           newcap = (if newcap < 4 then 4 else newcap)
                       in regrow L v newcap)
                 else Ret v)
          (\<lambda>v1. if arrayIndex \<ge> Len v1 then SetLen v1 (arrayIndex + 1) else Ret v1)
      else Ret v)"

text \<open>The \<open>switch primitiveType\<close> of \<open>deserializeArray\<close> (lines 137 to 184).\<close>

definition arrayStore ::
  "'f lib \<Rightarrow> 'f val \<Rightarrow> nat \<Rightarrow> PrimitiveType \<Rightarrow> string \<Rightarrow> (error + 'f val) res" where
  "arrayStore L v arrayIndex primitiveType data =
     (case primitiveType of
        Number \<Rightarrow>
          (case kindOfTy (Elem v) of
             KUint w \<Rightarrow>
               (case parseUint data of
                  Inl e \<Rightarrow> Ret (Inl e)
                | Inr uin \<Rightarrow> bindRes (SetUint (Index v arrayIndex) uin)
                               (\<lambda>x. Ret (Inr (setIndex v arrayIndex x))))
           | KInt w \<Rightarrow>
               (case parseInt data of
                  Inl e \<Rightarrow> Ret (Inl e)
                | Inr i \<Rightarrow> bindRes (SetInt (Index v arrayIndex) i)
                               (\<lambda>x. Ret (Inr (setIndex v arrayIndex x))))
           | KFloat w \<Rightarrow>
               (case parseFloat L data of
                  Inl e \<Rightarrow> Ret (Inl e)
                | Inr f \<Rightarrow> bindRes (SetFloat L (Index v arrayIndex) f)
                               (\<lambda>x. Ret (Inr (setIndex v arrayIndex x))))
           | _ \<Rightarrow> Ret (Inr v))
      | Bool \<Rightarrow>
          (case parseBool data of
             Inl e \<Rightarrow> Ret (Inl e)
           | Inr b \<Rightarrow> bindRes (Append L v (VBool b) TBool) (\<lambda>v1. Ret (Inr v1)))
      | String \<Rightarrow>
          bindRes (parseString data)
            (\<lambda>r. case r of
                    Inl e \<Rightarrow> Ret (Inl e)
                  | Inr s \<Rightarrow> bindRes (Append L v (VString s) TString) (\<lambda>v1. Ret (Inr v1)))
      | Nil \<Rightarrow>
          (case parseNil data of
             Some e \<Rightarrow> Ret (Inl e)
           | None \<Rightarrow> Ret (Inr v))
      | Invalid \<Rightarrow> Ret (Inr v))"

text \<open>The primitive branch of \<open>deserializeArray\<close> (lines 128 to 187).\<close>

definition arrayPrimitive ::
  "nat \<Rightarrow> 'f lib \<Rightarrow> 'f val \<Rightarrow> nat \<Rightarrow> deserializer \<Rightarrow> (bool \<times> 'f val \<times> deserializer) res" where
  "arrayPrimitive n L v arrayIndex d =
     (case parsePrimitiveType d of
        (Inl e, d1) \<Rightarrow> Ret (True, v, d1\<lparr>err := Some e\<rparr>)
      | (Inr primitiveType, d1) \<Rightarrow>
          bindRes (consumeUntilTerminator n d1)
            (\<lambda>(data, terminator, d2).
               bindRes (arrayStore L v arrayIndex primitiveType data)
                 (\<lambda>r. case r of
                         Inl e \<Rightarrow> Ret (True, v, d2\<lparr>err := Some e\<rparr>)
                       | Inr v1 \<Rightarrow>
                           Ret (False, v1,
                                if terminator = CHR '','' then consumeByte terminator d2 else d2))))"

text \<open>
  Lines 200 to 209 of \<open>deserializeArray\<close>, reached when another element follows: an
  array zero-fills every slot from \<open>arrayIndex\<close> on and leaves \<open>arrayIndex\<close> at its length;
  otherwise \<open>SetLen(arrayIndex)\<close>.
\<close>

definition afterElement :: "'f lib \<Rightarrow> 'f val \<Rightarrow> nat \<Rightarrow> ('f val \<times> nat) res" where
  "afterElement L v arrayIndex =
     (if arrayIndex < Len v then
        (if Kind v = KArray then
           (case v of
              VArray t xs \<Rightarrow>
                Ret (VArray t (take arrayIndex xs @ replicate (length xs - arrayIndex) (Zero L t)),
                     length xs)
            | _ \<Rightarrow> Ret (v, arrayIndex))
         else Ret (v, arrayIndex))
      else bindRes (SetLen v arrayIndex) (\<lambda>v1. Ret (v1, arrayIndex)))"

text \<open>
  The \<open>switch primitiveType\<close> of \<open>deserializeObject\<close> (lines 271 to 317); the result is
  the new value of the field. The number case switches on the kind of \<open>v\<close>, the record
  being filled.
\<close>

definition objectStore ::
  "'f lib \<Rightarrow> 'f val \<Rightarrow> 'f val \<Rightarrow> PrimitiveType \<Rightarrow> string \<Rightarrow> (error + 'f val) res" where
  "objectStore L v keyFieldValue primitiveType data =
     (case primitiveType of
        Number \<Rightarrow>
          (case Kind v of
             KUint w \<Rightarrow>
               (case parseUint data of
                  Inl e \<Rightarrow> Ret (Inl e)
                | Inr uin \<Rightarrow> bindRes (SetUint keyFieldValue uin) (\<lambda>x. Ret (Inr x)))
           | KInt w \<Rightarrow>
               (case parseInt data of
                  Inl e \<Rightarrow> Ret (Inl e)
                | Inr i \<Rightarrow> bindRes (SetInt keyFieldValue i) (\<lambda>x. Ret (Inr x)))
           | KFloat w \<Rightarrow>
               (case parseFloat L data of
                  Inl e \<Rightarrow> Ret (Inl e)
                | Inr f \<Rightarrow> bindRes (SetFloat L keyFieldValue f) (\<lambda>x. Ret (Inr x)))
           | _ \<Rightarrow> Ret (Inr keyFieldValue))
      | Bool \<Rightarrow>
          (case parseBool data of
             Inl e \<Rightarrow> Ret (Inl e)
           | Inr b \<Rightarrow> bindRes (SetBool keyFieldValue b) (\<lambda>x. Ret (Inr x)))
      | String \<Rightarrow>
          bindRes (parseString data)
            (\<lambda>r. case r of
                    Inl e \<Rightarrow> Ret (Inl e)
                  | Inr s \<Rightarrow> bindRes (SetString keyFieldValue s) (\<lambda>x. Ret (Inr x)))
      | Nil \<Rightarrow>
          (case parseNil data of
             Some e \<Rightarrow> Ret (Inl e)
           | None \<Rightarrow> Ret (Inr keyFieldValue))
      | Invalid \<Rightarrow> Ret (Inr keyFieldValue))"

text \<open>The primitive branch of \<open>deserializeObject\<close> (lines 262 to 320).\<close>

definition objectPrimitive ::
  "nat \<Rightarrow> 'f lib \<Rightarrow> 'f val \<Rightarrow> string \<Rightarrow> 'f val \<Rightarrow> deserializer
     \<Rightarrow> (bool \<times> 'f val \<times> deserializer) res" where
  "objectPrimitive n L v key keyFieldValue d =
     (case parsePrimitiveType d of
        (Inl e, d1) \<Rightarrow> Ret (True, v, d1\<lparr>err := Some e\<rparr>)
      | (Inr primitiveType, d1) \<Rightarrow>
          bindRes (consumeUntilTerminator n d1)
            (\<lambda>(data, terminator, d2).
               bindRes (objectStore L v keyFieldValue primitiveType data)
                 (\<lambda>r. case r of
                         Inl e \<Rightarrow> Ret (True, v, d2\<lparr>err := Some e\<rparr>)
                       | Inr x \<Rightarrow>
                           Ret (False, setField v key x,
                                if terminator = CHR '','' then consumeByte terminator d2 else d2))))"

text \<open>
  The two walkers. \<open>arrayLoop\<close> and \<open>objectLoop\<close> are the \<open>for\<close> loops, one unit of the
  step budget per iteration; \<open>arrayElement\<close> is lines 112 to 191, \<open>objectField\<close> lines
  243 to 324.
\<close>

function deserializeArray :: "nat \<Rightarrow> 'f lib \<Rightarrow> 'f val \<Rightarrow> deserializer \<Rightarrow> ('f val \<times> deserializer) res"
  and arrayLoop :: "nat \<Rightarrow> 'f lib \<Rightarrow> 'f val \<Rightarrow> deserializer \<Rightarrow> nat \<Rightarrow> ('f val \<times> deserializer) res"
  and arrayElement ::
    "nat \<Rightarrow> 'f lib \<Rightarrow> 'f val \<Rightarrow> deserializer \<Rightarrow> nat \<Rightarrow> (bool \<times> 'f val \<times> deserializer) res"
  and deserializeObject :: "nat \<Rightarrow> 'f lib \<Rightarrow> 'f val \<Rightarrow> deserializer \<Rightarrow> ('f val \<times> deserializer) res"
  and objectLoop :: "nat \<Rightarrow> 'f lib \<Rightarrow> 'f val \<Rightarrow> deserializer \<Rightarrow> ('f val \<times> deserializer) res"
  and objectField ::
    "nat \<Rightarrow> 'f lib \<Rightarrow> 'f val \<Rightarrow> string \<Rightarrow> 'f val \<Rightarrow> deserializer
       \<Rightarrow> (bool \<times> 'f val \<times> deserializer) res"
where
  "deserializeArray n L v d =
     (if \<not> isJsonArray (Kind v) then Ret (v, d\<lparr>err := Some (NotJsonArray (Kind v))\<rparr>)
      else (let d1 = consumeByte (CHR ''['') d; d2 = consumeWhitespace d1 in
            if hasError d2 then Ret (v, d2) else arrayLoop n L v d2 0))"
| "arrayLoop 0 L v d arrayIndex = OutOfFuel"
| "arrayLoop (Suc n) L v d arrayIndex =
     (let (b, d1) = peekCurrent d in
      if b = CHR '']'' then Ret (v, consumeByte (CHR '']'') (consumeWhitespace d1))
      else
        bindRes (growSlice L v arrayIndex) (\<lambda>v1.
        bindRes (if arrayIndex < Len v1 then arrayElement n L v1 d1 arrayIndex
                 else Ret (False, v1, d1)) (\<lambda>(returned, v2, d2).
          if returned then Ret (v2, d2)
          else (let arrayIndex1 = arrayIndex + 1;
                    d3 = consumeWhitespace d2;
                    (b3, d4) = peekCurrent d3
                in if b3 = CHR '']'' then Ret (v2, consumeByte (CHR '']'') (consumeWhitespace d4))
                   else bindRes (afterElement L v2 arrayIndex1)
                          (\<lambda>(v3, arrayIndex2). arrayLoop n L v3 d4 arrayIndex2)))))"
| "arrayElement n L v d arrayIndex =
     (let (b, d1) = peekCurrent d in
      if b = CHR ''['' then
        bindRes (deserializeArray n L (Index v arrayIndex) d1) (\<lambda>(x, d2).
          let v1 = setIndex v arrayIndex x in
          if hasError d2 then Ret (True, v1, d2)
          else (let (c, d3) = peekCurrent d2 in
                if c = CHR '','' then Ret (False, v1, consumeByte (CHR '','') d3)
                else Ret (False, v1, d3)))
      else (let (b1, d2) = peekCurrent d1 in
        if b1 = CHR ''{'' then
          bindRes (deserializeObject n L (Index v arrayIndex) d2) (\<lambda>(x, d3).
            let v1 = setIndex v arrayIndex x in
            if hasError d3 then Ret (True, v1, d3)
            else (let (c, d4) = peekCurrent d3 in
                  if c = CHR '','' then Ret (False, v1, consumeByte (CHR '','') d4)
                  else Ret (False, v1, d4)))
        else (let (p, d3) = isPrimitiveAhead d2 in
          if p then arrayPrimitive n L v arrayIndex d3
          else (let (c, d4) = peekCurrent d3 in
                Ret (True, v, d4\<lparr>err := Some (ExpectedValueInLoop c arrayIndex)\<rparr>)))))"
| "deserializeObject n L v d =
     (let d1 = consumeByte (CHR ''{'') d; d2 = consumeWhitespace d1 in
      if hasError d2 then Ret (v, d2) else objectLoop n L v d2)"
| "objectLoop 0 L v d = OutOfFuel"
| "objectLoop (Suc n) L v d =
     (let (b, d1) = peekCurrent d in
      if b = CHR ''}'' then Ret (v, consumeByte (CHR ''}'') (consumeWhitespace d1))
      else (let (key, d2) = consumeKey d1 in
        if hasError d2 then Ret (v, d2)
        else bindRes (FieldByName v key) (\<lambda>kf.
          case kf of
            None \<Rightarrow> Ret (v, d2\<lparr>err := Some (KeyNotFound key)\<rparr>)
          | Some keyFieldValue \<Rightarrow>
              bindRes (objectField n L v key keyFieldValue d2) (\<lambda>(returned, v1, d3).
                if returned then Ret (v1, d3)
                else objectLoop n L v1 (consumeWhitespace d3)))))"
| "objectField n L v key keyFieldValue d =
     (let (b, d1) = peekCurrent d in
      if b = CHR ''['' then
        bindRes (deserializeArray n L keyFieldValue d1) (\<lambda>(x, d2).
          let v1 = setField v key x in
          if hasError d2 then Ret (True, v1, d2)
          else (let (c, d3) = peekCurrent d2 in
                if c = CHR '','' then Ret (False, v1, consumeWhitespace (consumeByte (CHR '','') d3))
                else Ret (False, v1, d3)))
      else (let (b1, d2) = peekCurrent d1 in
        if b1 = CHR ''{'' then
          bindRes (deserializeObject n L keyFieldValue d2) (\<lambda>(x, d3).
            let v1 = setField v key x in
            if hasError d3 then Ret (True, v1, d3)
            else (let (c, d4) = peekCurrent d3 in
                  if c = CHR '','' then Ret (False, v1, consumeWhitespace (consumeByte (CHR '','') d4))
                  else Ret (False, v1, d4)))
        else (let (p, d3) = isPrimitiveAhead d2 in
          if p then objectPrimitive n L v key keyFieldValue d3
          else (let (c, d4) = peekCurrent d3 in
                Ret (True, v, d4\<lparr>err := Some (ExpectedValue c)\<rparr>)))))"
  by pat_completeness auto
termination
  by (relation "measure (\<lambda>x. case x of
        Inl (Inl (n, _)) \<Rightarrow> 3 * n + 1
      | Inl (Inr (Inl (n, _))) \<Rightarrow> 3 * n
      | Inl (Inr (Inr (n, _))) \<Rightarrow> 3 * n + 2
      | Inr (Inl (n, _)) \<Rightarrow> 3 * n + 1
      | Inr (Inr (Inl (n, _))) \<Rightarrow> 3 * n
      | Inr (Inr (Inr (n, _))) \<Rightarrow> 3 * n + 2)") auto

declare deserializeArray.simps [simp del] arrayLoop.simps [simp del] arrayElement.simps [simp del]
  deserializeObject.simps [simp del] objectLoop.simps [simp del] objectField.simps [simp del]

text \<open>
  \<open>Deserialize\<close> answers the error (if any) and the target as the call left it. A target
  that is neither a record nor a sequence is left alone, without an error.
\<close>

definition deserialize :: "nat \<Rightarrow> 'f lib \<Rightarrow> 'f val \<Rightarrow> deserializer \<Rightarrow> (error option \<times> 'f val) res" where
  "deserialize n L interfaceValue d =
     (if isJsonArray (Kind interfaceValue) then
        bindRes (deserializeArray n L interfaceValue d)
          (\<lambda>(v, d1). if hasError d1 then Ret (err d1, v) else Ret (None, v))
      else if Kind interfaceValue = KStruct then
        bindRes (deserializeObject n L interfaceValue d)
          (\<lambda>(v, d1). if hasError d1 then Ret (err d1, v) else Ret (None, v))
      else Ret (None, interfaceValue))"

definition Deserialize :: "nat \<Rightarrow> 'f lib \<Rightarrow> string \<Rightarrow> 'f val \<Rightarrow> (error option \<times> 'f val) res" where
  "Deserialize n L js i = deserialize n L i (makeDeserializer js)"

section \<open>The serializer\<close>

text \<open>
  The state of one \<open>Serialize\<close> call: the text built so far and the indentation level.
  The \<open>error\<close> result of the serializer's functions is \<open>nil\<close> on every path of the source
  and is left out; a panic is a \<open>Panic\<close>.
\<close>

record serializer =
  out :: string
  indentLevel :: int

definition makeSerializer :: serializer where
  "makeSerializer = \<lparr>out = [], indentLevel = 0\<rparr>"

definition WriteString :: "string \<Rightarrow> serializer \<Rightarrow> serializer" where
  "WriteString t s = s\<lparr>out := out s @ t\<rparr>"

definition appendTabs :: "serializer \<Rightarrow> serializer" where
  "appendTabs s = WriteString (replicate (nat (indentLevel s)) (CHR 0x09)) s"

definition startObject :: "serializer \<Rightarrow> serializer" where
  "startObject s =
     appendTabs ((WriteString [CHR ''{'', CHR 0x0A] s)\<lparr>indentLevel := indentLevel s + 1\<rparr>)"

definition endObject :: "serializer \<Rightarrow> serializer" where
  "endObject s =
     WriteString ''}''
       (appendTabs ((WriteString [CHR 0x0A] s)\<lparr>indentLevel := indentLevel s - 1\<rparr>))"

definition startArray :: "serializer \<Rightarrow> serializer" where
  "startArray s =
     appendTabs ((WriteString [CHR ''['', CHR 0x0A] s)\<lparr>indentLevel := indentLevel s + 1\<rparr>)"

definition endArray :: "serializer \<Rightarrow> serializer" where
  "endArray s =
     WriteString '']''
       (appendTabs ((WriteString [CHR 0x0A] s)\<lparr>indentLevel := indentLevel s - 1\<rparr>))"

definition appendComma :: "serializer \<Rightarrow> serializer" where
  "appendComma s = appendTabs (WriteString [CHR '','', CHR 0x0A] s)"

definition appendKey :: "string \<Rightarrow> serializer \<Rightarrow> serializer" where
  "appendKey name s =
     WriteString [CHR 0x22, CHR '':'', CHR '' ''] (WriteString name (WriteString [CHR 0x22] s))"

text \<open>
  \<open>for i := range s\<close> over a Go string visits the first byte of every UTF-8 sequence:
  after a byte that starts a well-formed sequence of two to four bytes the index moves
  past its continuation bytes, after any other byte it moves by one. \<open>runeExtra\<close> counts
  the continuation bytes skipped at the head of the rest of the string.
\<close>

definition inRange :: "char \<Rightarrow> nat \<Rightarrow> nat \<Rightarrow> bool" where
  "inRange c lo hi = (lo \<le> byteval c \<and> byteval c \<le> hi)"

fun runeExtra :: "string \<Rightarrow> nat" where
  "runeExtra (b0 # b1 # b2 # b3 # bs) =
     (if inRange b0 0xC2 0xDF \<and> inRange b1 0x80 0xBF then 1
      else if b0 = CHR 0xE0 \<and> inRange b1 0xA0 0xBF \<and> inRange b2 0x80 0xBF then 2
      else if (inRange b0 0xE1 0xEC \<or> inRange b0 0xEE 0xEF)
              \<and> inRange b1 0x80 0xBF \<and> inRange b2 0x80 0xBF then 2
      else if b0 = CHR 0xED \<and> inRange b1 0x80 0x9F \<and> inRange b2 0x80 0xBF then 2
      else if b0 = CHR 0xF0 \<and> inRange b1 0x90 0xBF \<and> inRange b2 0x80 0xBF
              \<and> inRange b3 0x80 0xBF then 3
      else if inRange b0 0xF1 0xF3 \<and> inRange b1 0x80 0xBF \<and> inRange b2 0x80 0xBF
              \<and> inRange b3 0x80 0xBF then 3
      else if b0 = CHR 0xF4 \<and> inRange b1 0x80 0x8F \<and> inRange b2 0x80 0xBF
              \<and> inRange b3 0x80 0xBF then 3
      else 0)"
| "runeExtra [b0, b1, b2] =
     (if inRange b0 0xC2 0xDF \<and> inRange b1 0x80 0xBF then 1
      else if b0 = CHR 0xE0 \<and> inRange b1 0xA0 0xBF \<and> inRange b2 0x80 0xBF then 2
      else if (inRange b0 0xE1 0xEC \<or> inRange b0 0xEE 0xEF)
              \<and> inRange b1 0x80 0xBF \<and> inRange b2 0x80 0xBF then 2
      else if b0 = CHR 0xED \<and> inRange b1 0x80 0x9F \<and> inRange b2 0x80 0xBF then 2
      else 0)"
| "runeExtra [b0, b1] = (if inRange b0 0xC2 0xDF \<and> inRange b1 0x80 0xBF then 1 else 0)"
| "runeExtra bs = 0"

text \<open>The \<open>switch c\<close> of \<open>escapeString\<close>: the bytes written for \<open>c\<close>.\<close>

definition escapeByte :: "char \<Rightarrow> string" where
  "escapeByte c =
     (if c = CHR 0x5C \<or> c = CHR 0x22 then [CHR 0x5C, c]
      else if c = CHR ''/'' then [CHR 0x5C, c]
      else if c = CHR 0x08 then [CHR 0x5C, CHR ''b'']
      else if c = CHR 0x09 then [CHR 0x5C, CHR ''t'']
      else if c = CHR 0x0A then [CHR 0x5C, CHR ''n'']
      else if c = CHR 0x0C then [CHR 0x5C, CHR ''f'']
      else if c = CHR 0x0D then [CHR 0x5C, CHR ''r'']
      else [c])"

function escapeLoop :: "string \<Rightarrow> nat \<Rightarrow> string \<Rightarrow> string" where
  "escapeLoop s i sb =
     (if i < length s
      then escapeLoop s (i + 1 + runeExtra (drop i s)) (sb @ escapeByte (s ! i))
      else sb)"
  by pat_completeness auto
termination
  by (relation "measure (\<lambda>(s, i, sb). length s - i)") auto

declare escapeLoop.simps [simp del]

definition escapeString :: "string \<Rightarrow> string" where
  "escapeString s = escapeLoop s 0 []"

text \<open>
  \<open>strconv.FormatBool\<close>, \<open>strconv.FormatUint(u, 10)\<close> and \<open>strconv.FormatInt(i, 10)\<close> of
  the Go standard library.
\<close>

definition FormatBool :: "bool \<Rightarrow> string" where
  "FormatBool b = (if b then ''true'' else ''false'')"

definition digitChar :: "int \<Rightarrow> char" where
  "digitChar n = ''0123456789'' ! nat n"

function FormatUint :: "int \<Rightarrow> string" where
  "FormatUint u = (if u < 10 then [digitChar u] else FormatUint (u div 10) @ [digitChar (u mod 10)])"
  by pat_completeness auto
termination
  by (relation "measure nat") auto

declare FormatUint.simps [simp del]

definition FormatInt :: "int \<Rightarrow> string" where
  "FormatInt i = (if i < 0 then CHR ''-'' # FormatUint (- i) else FormatUint i)"

fun serializePrimitive :: "'f lib \<Rightarrow> 'f val \<Rightarrow> serializer \<Rightarrow> serializer" where
  "serializePrimitive L (VBool b) s = WriteString (FormatBool b) s"
| "serializePrimitive L (VInt w i) s = WriteString (FormatInt i) s"
| "serializePrimitive L (VUint w u) s = WriteString (FormatUint u) s"
| "serializePrimitive L (VFloat F32 f) s = WriteString (FormatFloat L f 32) s"
| "serializePrimitive L (VFloat F64 f) s = WriteString (FormatFloat L f 64) s"
| "serializePrimitive L (VString str) s =
     WriteString [CHR 0x22] (WriteString (escapeString str) (WriteString [CHR 0x22] s))"
| "serializePrimitive L v s = s"

text \<open>
  \<open>serializeFields\<close> and \<open>serializeElements\<close> are the two \<open>for\<close> loops, over the fields or
  elements still to be written: a comma follows every one but the last.
  \<open>reflect.Value.IsNil\<close> panics on an array, so \<open>serializeArray\<close> accepts slices only.
\<close>

function serializeObject :: "'f lib \<Rightarrow> 'f val \<Rightarrow> serializer \<Rightarrow> serializer res"
  and serializeFields :: "'f lib \<Rightarrow> (string \<times> 'f val) list \<Rightarrow> serializer \<Rightarrow> serializer res"
  and serializeArray :: "'f lib \<Rightarrow> 'f val \<Rightarrow> serializer \<Rightarrow> serializer res"
  and serializeElements :: "'f lib \<Rightarrow> 'f val list \<Rightarrow> serializer \<Rightarrow> serializer res"
where
  "serializeObject L v s =
     (case v of
        VStruct fs \<Rightarrow> bindRes (serializeFields L fs (startObject s)) (\<lambda>s1. Ret (endObject s1))
      | _ \<Rightarrow> Panic (ReflectPanic ''NumField''))"
| "serializeFields L [] s = Ret s"
| "serializeFields L (f # fs) s =
     (let fieldValue = snd f; s1 = appendKey (fst f) s in
      bindRes (if isPrimitive (Kind fieldValue) then Ret (serializePrimitive L fieldValue s1)
               else if Kind fieldValue = KStruct then serializeObject L fieldValue s1
               else if isJsonArray (Kind fieldValue) then serializeArray L fieldValue s1
               else Panic (Unserializable (Kind fieldValue)))
        (\<lambda>s2. serializeFields L fs (if fs \<noteq> [] then appendComma s2 else s2)))"
| "serializeArray L v s =
     (case v of
        VSlice t None \<Rightarrow> Ret (WriteString ''null'' s)
      | VSlice t (Some (xs, n)) \<Rightarrow>
          bindRes (serializeElements L (take n xs) (startArray s)) (\<lambda>s1. Ret (endArray s1))
      | _ \<Rightarrow> Panic (ReflectPanic ''IsNil''))"
| "serializeElements L [] s = Ret s"
| "serializeElements L (x # xs) s =
     bindRes (if Kind x = KStruct then serializeObject L x s
              else if isPrimitive (Kind x) then Ret (serializePrimitive L x s)
              else if isJsonArray (Kind x) then serializeArray L x s
              else Ret s)
       (\<lambda>s1. serializeElements L xs (if xs \<noteq> [] then appendComma s1 else s1))"
  by pat_completeness auto
termination
proof -
  have tk: "size_list size (take n xs) \<le> Suc (Suc (size_list size xs))"
    for n and xs :: "'f val list"
    by (induction xs arbitrary: n) (auto simp: take_Cons split: nat.splits)
  have sp: "size_prod (\<lambda>x. 0) size = (\<lambda>f :: string \<times> 'f val. Suc (size (snd f)))"
    by (auto simp: fun_eq_iff)
  show ?thesis
    by (relation "measure (\<lambda>x. case x of
          Inl (Inl (L, v, s)) \<Rightarrow> size v
        | Inl (Inr (L, fs, s)) \<Rightarrow> size_list (\<lambda>f. Suc (size (snd f))) fs
        | Inr (Inl (L, v, s)) \<Rightarrow> size v
        | Inr (Inr (L, xs, s)) \<Rightarrow> size_list size xs)")
       (auto simp: tk sp less_Suc_eq_le)
qed

declare serializeObject.simps [simp del] serializeFields.simps [simp del]
  serializeArray.simps [simp del] serializeElements.simps [simp del]

definition serialize :: "'f lib \<Rightarrow> 'f val \<Rightarrow> serializer \<Rightarrow> serializer res" where
  "serialize L i s =
     (if Kind i = KStruct then serializeObject L i s
      else if isJsonArray (Kind i) then serializeArray L i s
      else Ret s)"

definition Serialize :: "'f lib \<Rightarrow> 'f val \<Rightarrow> string res" where
  "Serialize L i = bindRes (serialize L i makeSerializer) (\<lambda>s. Ret (out s))"

text \<open>
  A library instance for closed examples on documents and values without floating-point
  numbers: \<open>ParseFloat\<close> rejects every text, \<open>append\<close> allocates exactly what is needed.
\<close>

definition exampleLib :: "unit lib" where
  "exampleLib = \<lparr>ParseFloat = (\<lambda>s. Inl ErrSyntax), toFloat32 = (\<lambda>x. x),
     FormatFloat = (\<lambda>x n. []), zeroFloat = (), appendCap = (\<lambda>c n. n)\<rparr>"

section \<open>Unfolding the model on concrete documents\<close>

lemmas cursor_defs = makeDeserializer_def hasError_def atEof_def peekCurrent_def consume_def
  consumeByte_def isWhitespace_def consumeUntil_def consumeKey_def isPrimitiveAhead_def
  byteval_def parsePrimitiveType_def consumeUntilTerminator_def TrimRight_def

lemmas parse_defs = isDigit_def ParseUint_def ParseInt_def parseInt_def parseUint_def
  parseBool_def parseNil_def byteAt_def unescapeString_def parseString_def parseFloat_def

lemmas walk_defs = bindRes_def growSlice_def arrayStore_def arrayPrimitive_def afterElement_def
  objectStore_def objectPrimitive_def deserialize_def Deserialize_def

lemmas loop_simps = consumeWhitespace.simps consumeUntilLoop.simps unescapeLoop.simps
  consumeUntilTerminatorLoop.simps
  deserializeArray.simps arrayLoop.simps arrayElement.simps
  deserializeObject.simps objectLoop.simps objectField.simps

lemmas ser_defs = makeSerializer_def WriteString_def appendTabs_def startObject_def endObject_def
  startArray_def endArray_def appendComma_def appendKey_def
  FormatBool_def digitChar_def FormatInt_def serialize_def Serialize_def
  FormatUint.simps serializeObject.simps serializeFields.simps
  serializeArray.simps serializeElements.simps

lemmas escape_defs = inRange_def escapeByte_def escapeString_def escapeLoop.simps

section \<open>Numbers in records\<close>

text \<open>
  In \<open>deserializeObject\<close> the number case asks for the kind of the record, which is
  never a numeric kind: the field keeps the value it had.
\<close>

lemma objectStore_Number_struct:
  "objectStore L (VStruct fs) keyFieldValue Number data = Ret (Inr keyFieldValue)"
  by (simp add: objectStore_def)

text \<open>
  C1 (the code departs from the claim). The claim: a numeric member of a JSON object is
  parsed by the signedness and width of the destination field and written into it, so
  that \<open>{"Name": "Alice", "Age": 30}\<close> gives \<open>Name = "Alice"\<close> and \<open>Age = 30\<close>. On the
  code, with any step budget from 10 on, that document fills \<open>Name\<close> and leaves \<open>Age\<close> at
  the value \<open>a\<close> it had before the call; no error is reported.
\<close>

theorem Deserialize_record_number_left_unset:
  \<open>Deserialize (10 + n) L ''{"Name": "Alice", "Age": 30}''
      (VStruct [(''Name'', VString s), (''Age'', VInt WInt a)])
    = Ret (None, VStruct [(''Name'', VString ''Alice''), (''Age'', VInt WInt a)])\<close>
  by (simp add: cursor_defs parse_defs walk_defs loop_simps eval_nat_numeral Let_def)

section \<open>Round trip\<close>

text \<open>
  C2 (the code departs from the claim). The claim: deserializing the text that
  \<open>Serialize\<close> produced for a value of a supported shape gives back the value on its
  integer, boolean and text fields. On the code, the record \<open>{Name: "Alice", Age: 30}\<close>
  is serialized to the text of the specification's first example, and deserializing that
  text into a zero record gives \<open>Age = 0\<close>.
\<close>

theorem Serialize_Deserialize_loses_integer_field:
  \<open>Serialize L (VStruct [(''Name'', VString ''Alice''), (''Age'', VInt WInt 30)])
     = Ret (''{'' @ [CHR 0x0A, CHR 0x09] @ ''"Name": "Alice",'' @ [CHR 0x0A, CHR 0x09]
            @ ''"Age": 30'' @ [CHR 0x0A] @ ''}'')
   \<and> Deserialize (10 + n) L
        (''{'' @ [CHR 0x0A, CHR 0x09] @ ''"Name": "Alice",'' @ [CHR 0x0A, CHR 0x09]
            @ ''"Age": 30'' @ [CHR 0x0A] @ ''}'')
        (VStruct [(''Name'', VString []), (''Age'', VInt WInt 0)])
     = Ret (None, VStruct [(''Name'', VString ''Alice''), (''Age'', VInt WInt 0)])\<close>
proof
  show \<open>Serialize L (VStruct [(''Name'', VString ''Alice''), (''Age'', VInt WInt 30)])
     = Ret (''{'' @ [CHR 0x0A, CHR 0x09] @ ''"Name": "Alice",'' @ [CHR 0x0A, CHR 0x09]
            @ ''"Age": 30'' @ [CHR 0x0A] @ ''}'')\<close>
    by (simp add: ser_defs escape_defs bindRes_def byteval_def)
  show \<open>Deserialize (10 + n) L
        (''{'' @ [CHR 0x0A, CHR 0x09] @ ''"Name": "Alice",'' @ [CHR 0x0A, CHR 0x09]
            @ ''"Age": 30'' @ [CHR 0x0A] @ ''}'')
        (VStruct [(''Name'', VString []), (''Age'', VInt WInt 0)])
     = Ret (None, VStruct [(''Name'', VString ''Alice''), (''Age'', VInt WInt 0)])\<close>
    by (simp add: cursor_defs parse_defs walk_defs loop_simps eval_nat_numeral Let_def)
qed

section \<open>Fixed-length arrays\<close>

text \<open>
  C4 (the code departs from the claim). The claim: a JSON array with fewer elements than
  the fixed length \<open>K\<close> of the target succeeds, fills the first slots and zeroes the rest,
  so that \<open>[1, 2, 3]\<close> into a five-element integer array gives \<open>[1, 2, 3, 0, 0]\<close>. On the
  code, the zero-fill runs inside the element loop as soon as a second element follows
  and moves \<open>arrayIndex\<close> to \<open>K\<close>; the next pass calls \<open>SetLen\<close> on the array, which
  panics. With a single element nothing is zeroed: the other slots keep their values.
\<close>

theorem Deserialize_fixed_array_short_input:
  \<open>Deserialize (4 + n) L ''[1, 2, 3]''
      (VArray (TInt WInt) [VInt WInt 0, VInt WInt 0, VInt WInt 0, VInt WInt 0, VInt WInt 0])
     = Panic (ReflectPanic ''SetLen'')
   \<and> Deserialize (3 + n) L ''[1]''
      (VArray (TInt WInt) [VInt WInt 7, VInt WInt 7, VInt WInt 7])
     = Ret (None, VArray (TInt WInt) [VInt WInt 1, VInt WInt 7, VInt WInt 7])\<close>
  by (simp add: cursor_defs parse_defs walk_defs loop_simps eval_nat_numeral Let_def)

section \<open>Growable sequences\<close>

text \<open>
  C5 (the code departs from the claim). The claim: a JSON array of \<open>N\<close> elements read
  into a slice gives a slice of length exactly \<open>N\<close>, for number, boolean and string
  elements, whatever the slice's length and capacity before the call. On the code, a
  boolean element is appended after the slot for it was already added, so \<open>[true]\<close> into
  a nil slice of booleans gives length 2; and a slice that was longer than the document
  is not cut back, so \<open>[1, 2, 3]\<close> into a slice of length 5 gives length 5.
\<close>

theorem Deserialize_slice_length_not_element_count:
  \<open>Deserialize (6 + n) L ''[true]'' (VSlice TBool None)
     = Ret (None, VSlice TBool (Some ([VBool False, VBool True, VBool False, VBool False], 2)))
   \<and> Deserialize (5 + n) L ''[1, 2, 3]''
        (VSlice (TInt WInt)
           (Some ([VInt WInt 7, VInt WInt 7, VInt WInt 7, VInt WInt 7, VInt WInt 7], 5)))
     = Ret (None, VSlice (TInt WInt)
           (Some ([VInt WInt 1, VInt WInt 2, VInt WInt 3, VInt WInt 7, VInt WInt 7], 5)))\<close>
  by (simp add: cursor_defs parse_defs walk_defs loop_simps eval_nat_numeral Let_def)

section \<open>Whitespace between tokens\<close>

text \<open>
  C6 (the code departs from the claim). The claim: inserting spaces, tabs, newlines or
  carriage returns between the tokens of a valid document does not change the result,
  for example between the closing brace of a nested value and the comma after it. On
  the code, \<open>{"A": {"B": "x"}, "C": "y"}\<close> fills both fields, and the same document with
  one space before the comma stops with an error and leaves \<open>C\<close> unset.
\<close>

theorem Deserialize_space_before_comma_fails:
  \<open>Deserialize (6 + n) L ''{"A": {"B": "x"}, "C": "y"}''
      (VStruct [(''A'', VStruct [(''B'', VString [])]), (''C'', VString [])])
     = Ret (None, VStruct [(''A'', VStruct [(''B'', VString ''x'')]), (''C'', VString ''y'')])
   \<and> Deserialize (6 + n) L ''{"A": {"B": "x"} , "C": "y"}''
      (VStruct [(''A'', VStruct [(''B'', VString [])]), (''C'', VString [])])
     = Ret (Some (ExpectedByte CHR '':'' CHR ''C''),
            VStruct [(''A'', VStruct [(''B'', VString ''x'')]), (''C'', VString [])])\<close>
  by (simp add: cursor_defs parse_defs walk_defs loop_simps eval_nat_numeral Let_def)

section \<open>Nil and empty sequences\<close>

text \<open>
  C8, as stated, fails on the code: a present sequence of length zero is not written as
  \<open>[\<close>, newline, \<open>]\<close>.
\<close>

theorem Serialize_empty_slice_counterexample:
  \<open>Serialize exampleLib (VSlice TString (Some ([], 0))) \<noteq> Ret [CHR ''['', CHR 0x0A, CHR '']'']\<close>
  by (simp add: ser_defs bindRes_def)

text \<open>
  C8 (amended). Serializing a nil sequence gives exactly the four bytes \<open>null\<close>;
  serializing a present sequence of length zero gives the five bytes \<open>[\<close>, newline, tab,
  newline, \<open>]\<close> (the opening writes the indentation of the first element, the closing a
  newline and the outer indentation), whatever its capacity, and never \<open>null\<close>.
\<close>

theorem Serialize_nil_and_empty_slice:
  \<open>Serialize L (VSlice t None) = Ret ''null''
   \<and> Serialize L (VSlice t (Some (xs, 0))) = Ret [CHR ''['', CHR 0x0A, CHR 0x09, CHR 0x0A, CHR '']'']\<close>
  by (simp add: ser_defs bindRes_def)

section \<open>Reading past the end of an escaped string\<close>

text \<open>
  C10. Some input makes the string-unescaping step read the byte at an index equal to
  the length of the content, and that read is reached from \<open>Deserialize\<close>. The document
  is \<open>{"Name": "a\"}\<close>, with any step budget from 6 on. Step by step: after the key the
  cursor stands on the opening quote, at position 9; the lookahead classifies the value
  as a string; the scan returns the four bytes \<open>"a\"\<close> and stops on \<open>}\<close>; on that payload
  both reads of \<open>parseString\<close> are in range (the byte at 0 and the last byte are quotes),
  so \<open>parseString\<close> hands the content \<open>a\<close>, backslash to \<open>unescapeString\<close> and its result
  is decided there; \<open>unescapeString\<close> copies \<open>a\<close>, meets the backslash at index 1 and
  reads index 2, the length of the content, which is out of range. The panic goes up
  through the field store to \<open>Deserialize\<close>.
\<close>

theorem unescapeString_out_of_range_reachable:
  \<open>consumeKey (consumeWhitespace (consumeByte (CHR ''{'')
        (makeDeserializer (''{"Name": "a'' @ [CHR 0x5C] @ ''"}''))))
     = (''Name'', \<lparr>json = ''{"Name": "a'' @ [CHR 0x5C] @ ''"}'', pos = 9, eof = 13, err = None\<rparr>)
   \<and> parsePrimitiveType \<lparr>json = ''{"Name": "a'' @ [CHR 0x5C] @ ''"}'', pos = 9, eof = 13, err = None\<rparr>
     = (Inr String, \<lparr>json = ''{"Name": "a'' @ [CHR 0x5C] @ ''"}'', pos = 9, eof = 13, err = None\<rparr>)
   \<and> consumeUntilTerminator (5 + n)
        \<lparr>json = ''{"Name": "a'' @ [CHR 0x5C] @ ''"}'', pos = 9, eof = 13, err = None\<rparr>
     = Ret ([CHR 0x22, CHR ''a'', CHR 0x5C, CHR 0x22], CHR ''}'',
            \<lparr>json = ''{"Name": "a'' @ [CHR 0x5C] @ ''"}'', pos = 13, eof = 13, err = None\<rparr>)
   \<and> byteAt [CHR 0x22, CHR ''a'', CHR 0x5C, CHR 0x22] 0 = Some (CHR 0x22)
   \<and> length (drop 1 [CHR 0x22, CHR ''a'', CHR 0x5C, CHR 0x22]) = 3
   \<and> drop 1 [CHR 0x22, CHR ''a'', CHR 0x5C, CHR 0x22]
         ! (length (drop 1 [CHR 0x22, CHR ''a'', CHR 0x5C, CHR 0x22]) - 1) = CHR 0x22
   \<and> take (length (drop 1 [CHR 0x22, CHR ''a'', CHR 0x5C, CHR 0x22]) - 1)
         (drop 1 [CHR 0x22, CHR ''a'', CHR 0x5C, CHR 0x22]) = [CHR ''a'', CHR 0x5C]
   \<and> parseString [CHR 0x22, CHR ''a'', CHR 0x5C, CHR 0x22]
     = (case unescapeString [CHR ''a'', CHR 0x5C] of
          None \<Rightarrow> Panic IndexOutOfRange | Some strValue \<Rightarrow> Ret (Inr strValue))
   \<and> unescapeLoop [CHR ''a'', CHR 0x5C] 0 [] = unescapeLoop [CHR ''a'', CHR 0x5C] 1 [CHR ''a'']
   \<and> [CHR ''a'', CHR 0x5C] ! 1 = CHR 0x5C
   \<and> byteAt [CHR ''a'', CHR 0x5C] (length [CHR ''a'', CHR 0x5C]) = None
   \<and> unescapeLoop [CHR ''a'', CHR 0x5C] 1 [CHR ''a''] = None
   \<and> unescapeString [CHR ''a'', CHR 0x5C] = None
   \<and> parseString [CHR 0x22, CHR ''a'', CHR 0x5C, CHR 0x22] = Panic IndexOutOfRange
   \<and> objectStore L (VStruct [(''Name'', VString s)]) (VString s) String
        [CHR 0x22, CHR ''a'', CHR 0x5C, CHR 0x22] = Panic IndexOutOfRange
   \<and> objectPrimitive (5 + n) L (VStruct [(''Name'', VString s)]) ''Name'' (VString s)
        \<lparr>json = ''{"Name": "a'' @ [CHR 0x5C] @ ''"}'', pos = 9, eof = 13, err = None\<rparr>
     = Panic IndexOutOfRange
   \<and> Deserialize (6 + n) L (''{"Name": "a'' @ [CHR 0x5C] @ ''"}'') (VStruct [(''Name'', VString s)])
       = Panic IndexOutOfRange\<close>
proof (intro conjI)
  show \<open>consumeKey (consumeWhitespace (consumeByte (CHR ''{'')
        (makeDeserializer (''{"Name": "a'' @ [CHR 0x5C] @ ''"}''))))
     = (''Name'', \<lparr>json = ''{"Name": "a'' @ [CHR 0x5C] @ ''"}'', pos = 9, eof = 13, err = None\<rparr>)\<close>
    by (simp add: cursor_defs loop_simps eval_nat_numeral Let_def)
  show \<open>parsePrimitiveType \<lparr>json = ''{"Name": "a'' @ [CHR 0x5C] @ ''"}'', pos = 9, eof = 13, err = None\<rparr>
     = (Inr String, \<lparr>json = ''{"Name": "a'' @ [CHR 0x5C] @ ''"}'', pos = 9, eof = 13, err = None\<rparr>)\<close>
    by (simp add: cursor_defs eval_nat_numeral Let_def)
  show \<open>consumeUntilTerminator (5 + n)
        \<lparr>json = ''{"Name": "a'' @ [CHR 0x5C] @ ''"}'', pos = 9, eof = 13, err = None\<rparr>
     = Ret ([CHR 0x22, CHR ''a'', CHR 0x5C, CHR 0x22], CHR ''}'',
            \<lparr>json = ''{"Name": "a'' @ [CHR 0x5C] @ ''"}'', pos = 13, eof = 13, err = None\<rparr>)\<close>
    by (simp add: cursor_defs loop_simps eval_nat_numeral Let_def)
  show \<open>byteAt [CHR 0x22, CHR ''a'', CHR 0x5C, CHR 0x22] 0 = Some (CHR 0x22)\<close>
    by (simp add: byteAt_def)
  show \<open>length (drop 1 [CHR 0x22, CHR ''a'', CHR 0x5C, CHR 0x22]) = 3\<close>
    by simp
  show \<open>drop 1 [CHR 0x22, CHR ''a'', CHR 0x5C, CHR 0x22]
         ! (length (drop 1 [CHR 0x22, CHR ''a'', CHR 0x5C, CHR 0x22]) - 1) = CHR 0x22\<close>
    by simp
  show \<open>take (length (drop 1 [CHR 0x22, CHR ''a'', CHR 0x5C, CHR 0x22]) - 1)
         (drop 1 [CHR 0x22, CHR ''a'', CHR 0x5C, CHR 0x22]) = [CHR ''a'', CHR 0x5C]\<close>
    by simp
  show \<open>parseString [CHR 0x22, CHR ''a'', CHR 0x5C, CHR 0x22]
     = (case unescapeString [CHR ''a'', CHR 0x5C] of
          None \<Rightarrow> Panic IndexOutOfRange | Some strValue \<Rightarrow> Ret (Inr strValue))\<close>
    by (simp add: parseString_def byteAt_def)
  show \<open>unescapeLoop [CHR ''a'', CHR 0x5C] 0 [] = unescapeLoop [CHR ''a'', CHR 0x5C] 1 [CHR ''a'']\<close>
    by (subst unescapeLoop.simps) (simp add: Let_def)
  show \<open>[CHR ''a'', CHR 0x5C] ! 1 = CHR 0x5C\<close>
    by simp
  show \<open>byteAt [CHR ''a'', CHR 0x5C] (length [CHR ''a'', CHR 0x5C]) = None\<close>
    by (simp add: byteAt_def)
  show \<open>unescapeLoop [CHR ''a'', CHR 0x5C] 1 [CHR ''a''] = None\<close>
    by (subst unescapeLoop.simps) (simp add: Let_def byteAt_def)
  show \<open>unescapeString [CHR ''a'', CHR 0x5C] = None\<close>
    by (simp add: parse_defs loop_simps Let_def)
  show \<open>parseString [CHR 0x22, CHR ''a'', CHR 0x5C, CHR 0x22] = Panic IndexOutOfRange\<close>
    by (simp add: parse_defs loop_simps Let_def)
  show \<open>objectStore L (VStruct [(''Name'', VString s)]) (VString s) String
        [CHR 0x22, CHR ''a'', CHR 0x5C, CHR 0x22] = Panic IndexOutOfRange\<close>
    by (simp add: objectStore_def bindRes_def parse_defs loop_simps Let_def)
  show \<open>objectPrimitive (5 + n) L (VStruct [(''Name'', VString s)]) ''Name'' (VString s)
        \<lparr>json = ''{"Name": "a'' @ [CHR 0x5C] @ ''"}'', pos = 9, eof = 13, err = None\<rparr>
     = Panic IndexOutOfRange\<close>
    by (simp add: cursor_defs parse_defs walk_defs loop_simps eval_nat_numeral Let_def)
  show \<open>Deserialize (6 + n) L (''{"Name": "a'' @ [CHR 0x5C] @ ''"}'') (VStruct [(''Name'', VString s)])
       = Panic IndexOutOfRange\<close>
    by (simp add: cursor_defs parse_defs walk_defs loop_simps eval_nat_numeral Let_def)
qed

section \<open>Input that ends early\<close>

text \<open>
  \<open>consume\<close> and \<open>peekCurrent\<close> change neither the buffer nor the end mark; \<open>consume\<close>
  moves by one byte unless the input has ended.
\<close>

lemma consume_frame:
  "json (snd (consume d)) = json d" "eof (snd (consume d)) = eof d"
  "pos (snd (consume d)) = (if int (pos d) > eof d then pos d else pos d + 1)"
  by (simp_all add: consume_def atEof_def)

lemma peekCurrent_frame:
  "json (snd (peekCurrent d)) = json d" "eof (snd (peekCurrent d)) = eof d"
  "pos (snd (peekCurrent d)) = pos d"
  "fst (peekCurrent d) = (if int (pos d) > eof d then CHR 0x00 else json d ! pos d)"
  by (simp_all add: peekCurrent_def atEof_def)

lemma consumeUntilTerminatorLoop_no_terminator:
  "eof d = int (length (json d)) - 1 \<Longrightarrow>
   \<forall>c \<in> set (drop (pos d) (json d)). c \<noteq> CHR ''}'' \<and> c \<noteq> CHR '','' \<and> c \<noteq> CHR '']'' \<Longrightarrow>
   b \<noteq> CHR ''}'' \<and> b \<noteq> CHR '','' \<and> b \<noteq> CHR '']'' \<Longrightarrow>
   consumeUntilTerminatorLoop n b sb d = OutOfFuel"
proof (induction n arbitrary: b sb d)
  case 0
  show ?case by (simp add: consumeUntilTerminatorLoop.simps)
next
  case (Suc n)
  let ?d1 = "snd (consume d)"
  let ?d2 = "snd (peekCurrent ?d1)"
  let ?b1 = "fst (peekCurrent ?d1)"
  have e: "eof ?d2 = int (length (json ?d2)) - 1"
    using Suc.prems(1) by (simp add: consume_frame peekCurrent_frame)
  have sub: "set (drop (pos ?d2) (json ?d2)) \<subseteq> set (drop (pos d) (json d))"
    by (auto simp: consume_frame peekCurrent_frame dest: in_set_dropD
          intro: set_drop_subset_set_drop[THEN subsetD, of "pos d" "Suc (pos d)"])
  have inv: "\<forall>c \<in> set (drop (pos ?d2) (json ?d2)). c \<noteq> CHR ''}'' \<and> c \<noteq> CHR '','' \<and> c \<noteq> CHR '']''"
    using Suc.prems(2) sub by blast
  have b1: "?b1 \<noteq> CHR ''}'' \<and> ?b1 \<noteq> CHR '','' \<and> ?b1 \<noteq> CHR '']''"
  proof (cases "int (pos ?d1) > eof ?d1")
    case True
    then show ?thesis by (simp add: peekCurrent_frame)
  next
    case False
    then have lt: "pos ?d1 < length (json ?d1)"
      using Suc.prems(1) by (simp add: consume_frame split: if_splits)
    then have "json ?d1 ! pos ?d1 \<in> set (drop (pos ?d1) (json ?d1))"
      by (metis Cons_nth_drop_Suc list.set_intros(1))
    then have "json ?d1 ! pos ?d1 \<in> set (drop (pos ?d2) (json ?d2))"
      by (simp add: peekCurrent_frame)
    with inv False show ?thesis by (simp add: peekCurrent_frame)
  qed
  have "consumeUntilTerminatorLoop n ?b1 (sb @ [b]) ?d2 = OutOfFuel"
    by (rule Suc.IH[OF e inv b1])
  with Suc.prems(3) show ?case
    by (simp add: consumeUntilTerminatorLoop.simps case_prod_beta Let_def)
qed

text \<open>
  C3 (the code departs from the claim). The claim: every \<open>Deserialize\<close> call runs to
  completion, and a document that ends before its closing \<open>}\<close> or \<open>]\<close>, such as
  \<open>{"Name": "Alice"\<close>, returns the end-of-input error rather than looping. On the code,
  \<open>consumeUntilTerminator\<close> scans the value \<open>"Alice"\<close> for one of \<open>}\<close>, \<open>,\<close>, \<open>]\<close>; at the
  end of the input \<open>peekCurrent\<close> keeps answering the zero byte, which is no terminator,
  and \<open>consume\<close> no longer moves. The loop never ends: whatever the step budget, the call
  has not returned when the budget is used up.
\<close>

theorem Deserialize_missing_closing_brace_never_returns:
  \<open>Deserialize n L ''{"Name": "Alice"'' (VStruct [(''Name'', VString s), (''Age'', VInt WInt a)])
     = OutOfFuel\<close>
proof (cases n)
  case 0
  then show ?thesis
    by (simp add: cursor_defs walk_defs loop_simps eval_nat_numeral Let_def)
next
  case (Suc m)
  then show ?thesis
    by (simp add: cursor_defs parse_defs walk_defs loop_simps eval_nat_numeral Let_def
          consumeUntilTerminatorLoop_no_terminator)
qed

section \<open>The error field during scanning\<close>

lemma atEof_keeps_error: "hasError d \<Longrightarrow> hasError (snd (atEof k d))"
  by (simp add: atEof_def hasError_def)

lemma consume_keeps_error: "hasError d \<Longrightarrow> hasError (snd (consume d))"
  by (simp add: consume_def atEof_def hasError_def)

lemma peekCurrent_keeps_error: "hasError d \<Longrightarrow> hasError (snd (peekCurrent d))"
  by (simp add: peekCurrent_def atEof_def hasError_def)

lemma peek_keeps_error: "hasError d \<Longrightarrow> hasError (snd (peek k d))"
  by (simp add: peek_def atEof_def hasError_def)

lemma consumeByte_keeps_error: "hasError d \<Longrightarrow> hasError (consumeByte b d)"
  by (simp add: consumeByte_def consume_def atEof_def hasError_def)

lemma consumeWhitespace_keeps_error: "hasError d \<Longrightarrow> hasError (consumeWhitespace d)"
proof (induction d rule: consumeWhitespace.induct)
  case (1 d)
  show ?case
  proof (cases "\<not> fst (atEof 0 d) \<and> isWhitespace (json d ! pos d)")
    case True
    then have "hasError (consumeWhitespace (snd (consume d)))"
      using "1.IH" "1.prems" consume_keeps_error by blast
    with True show ?thesis by (subst consumeWhitespace.simps) simp
  next
    case False
    then show ?thesis
      using "1.prems" atEof_keeps_error[of d 0] by (subst consumeWhitespace.simps) auto
  qed
qed

lemma consumeUntilLoop_keeps_error: "hasError d \<Longrightarrow> hasError (snd (consumeUntilLoop b sb d))"
proof (induction b sb d rule: consumeUntilLoop.induct)
  case (1 b sb d)
  show ?case
  proof (cases "json d ! pos d \<noteq> b")
    case False
    then show ?thesis using "1.prems" by (subst consumeUntilLoop.simps) simp
  next
    case True
    let ?d1 = "d\<lparr>pos := pos d + 1\<rparr>"
    have h1: "hasError ?d1" using "1.prems" by (simp add: hasError_def)
    show ?thesis
    proof (cases "fst (atEof 0 ?d1)")
      case True
      with \<open>json d ! pos d \<noteq> b\<close> show ?thesis
        using atEof_keeps_error[OF h1, of 0] by (subst consumeUntilLoop.simps) (simp add: Let_def)
    next
      case False
      have "hasError (snd (consumeUntilLoop b (sb @ [json d ! pos d]) ?d1))"
        using "1.IH"[OF \<open>json d ! pos d \<noteq> b\<close> refl False h1] .
      with False \<open>json d ! pos d \<noteq> b\<close> show ?thesis
        by (subst consumeUntilLoop.simps) (simp add: Let_def)
    qed
  qed
qed

lemma consumeUntil_keeps_error: "hasError d \<Longrightarrow> hasError (snd (consumeUntil b d))"
  using consumeUntilLoop_keeps_error[of "snd (atEof 0 d)" b "[]"] atEof_keeps_error[of d 0]
  by (simp add: consumeUntil_def case_prod_beta)

lemma consumeKey_keeps_error: "hasError d \<Longrightarrow> hasError (snd (consumeKey d))"
  by (simp add: consumeKey_def case_prod_beta Let_def consumeByte_keeps_error
      consumeUntil_keeps_error consumeWhitespace_keeps_error)

lemma consumeUntilTerminatorLoop_keeps_error:
  "hasError d \<Longrightarrow> consumeUntilTerminatorLoop n b sb d = Ret (s, t, d') \<Longrightarrow> hasError d'"
proof (induction n arbitrary: b sb d)
  case 0
  then show ?case by (simp add: consumeUntilTerminatorLoop.simps)
next
  case (Suc n)
  show ?case
  proof (cases "b \<noteq> CHR ''}'' \<and> b \<noteq> CHR '','' \<and> b \<noteq> CHR '']''")
    case True
    have "hasError (snd (peekCurrent (snd (consume d))))"
      using Suc.prems(1) by (simp add: consume_keeps_error peekCurrent_keeps_error)
    then show ?thesis
      using Suc.IH[of "snd (peekCurrent (snd (consume d)))" "fst (peekCurrent (snd (consume d)))" "sb @ [b]"]
        Suc.prems(2) True
      by (simp add: consumeUntilTerminatorLoop.simps case_prod_beta Let_def)
  next
    case False
    then show ?thesis using Suc.prems by (auto simp: consumeUntilTerminatorLoop.simps)
  qed
qed

lemma consumeUntilTerminator_keeps_error:
  "hasError d \<Longrightarrow>
   (case consumeUntilTerminator n d of Ret (s, t, d') \<Rightarrow> hasError d' | _ \<Rightarrow> True)"
proof -
  assume h: "hasError d"
  show ?thesis
  proof (cases "consumeUntilTerminatorLoop n (fst (peekCurrent d)) [] (snd (peekCurrent d))")
    case (Ret r)
    obtain s t d' where r: "r = (s, t, d')" by (cases r) auto
    have "hasError d'"
      using consumeUntilTerminatorLoop_keeps_error[OF peekCurrent_keeps_error[OF h]] Ret r
      by blast
    with Ret r show ?thesis
      by (simp add: consumeUntilTerminator_def case_prod_beta)
  qed (simp_all add: consumeUntilTerminator_def case_prod_beta)
qed

text \<open>
  C9, as stated, fails on the code: the scanning operations do not look at the error
  field. On the document \<open>{x"a":1}\<close>, after \<open>{\<close>, the first \<open>consumeByte\<close> of
  \<open>consumeKey\<close> stores \<open>Expected " Got x\<close>; the operations that follow still advance the
  cursor, from position 1 to position 3, and replace that error by \<open>Expected : Got a\<close>,
  which is the error \<open>Deserialize\<close> returns.
\<close>

theorem error_latch_counterexample:
  \<open>err (consumeByte (CHR 0x22) \<lparr>json = ''{x"a":1}'', pos = 1, eof = 7, err = None\<rparr>)
       = Some (ExpectedByte (CHR 0x22) (CHR ''x''))
   \<and> snd (consumeKey \<lparr>json = ''{x"a":1}'', pos = 1, eof = 7, err = None\<rparr>)
       = \<lparr>json = ''{x"a":1}'', pos = 3, eof = 7, err = Some (ExpectedByte (CHR '':'') (CHR ''a''))\<rparr>
   \<and> consumeByte (CHR '':'')
         \<lparr>json = ''{x"a":1}'', pos = 3, eof = 7, err = Some (ExpectedByte (CHR 0x22) (CHR ''x''))\<rparr>
       = \<lparr>json = ''{x"a":1}'', pos = 3, eof = 7, err = Some (ExpectedByte (CHR '':'') (CHR ''a''))\<rparr>
   \<and> snd (consume \<lparr>json = ''{x"a":1}'', pos = 1, eof = 7,
                     err = Some (ExpectedByte (CHR 0x22) (CHR ''x''))\<rparr>)
       = \<lparr>json = ''{x"a":1}'', pos = 2, eof = 7, err = Some (ExpectedByte (CHR 0x22) (CHR ''x''))\<rparr>
   \<and> Deserialize 1 exampleLib ''{x"a":1}'' (VStruct [(''a'', VInt WInt 0)])
       = Ret (Some (ExpectedByte (CHR '':'') (CHR ''a'')), VStruct [(''a'', VInt WInt 0)])\<close>
  by (simp add: cursor_defs walk_defs loop_simps eval_nat_numeral Let_def)

text \<open>
  C9 (amended). Within one deserialize call, once the cursor's error field has been set,
  it stays set through every subsequent scanning operation (\<open>atEof\<close>, \<open>peekCurrent\<close>,
  \<open>peek\<close>, \<open>consume\<close>, \<open>consumeByte\<close>, \<open>consumeWhitespace\<close>, \<open>consumeUntil\<close>, \<open>consumeKey\<close>,
  and \<open>consumeUntilTerminator\<close> whenever it returns): no operation clears it. The
  operations are not no-ops, and a later failure may store its own error in place of
  the first.
\<close>

theorem scanning_keeps_an_error_set:
  assumes "hasError d"
  shows "hasError (snd (atEof k d)) \<and> hasError (snd (peekCurrent d))
    \<and> hasError (snd (peek j d)) \<and> hasError (snd (consume d)) \<and> hasError (consumeByte b d)
    \<and> hasError (consumeWhitespace d) \<and> hasError (snd (consumeUntil b d))
    \<and> hasError (snd (consumeKey d))
    \<and> (case consumeUntilTerminator n d of Ret (s, t, d') \<Rightarrow> hasError d' | _ \<Rightarrow> True)"
  using assms
  by (simp add: atEof_keeps_error peekCurrent_keeps_error peek_keeps_error consume_keeps_error
      consumeByte_keeps_error consumeWhitespace_keeps_error consumeUntil_keeps_error
      consumeKey_keeps_error consumeUntilTerminator_keeps_error)

theorem scanning_keeps_an_error_set_witness:
  \<open>hasError \<lparr>json = ''{x"a":1}'', pos = 1, eof = 7, err = Some (ExpectedByte (CHR 0x22) (CHR ''x''))\<rparr>
   \<and> hasError (consumeByte (CHR '':'')
        \<lparr>json = ''{x"a":1}'', pos = 1, eof = 7, err = Some (ExpectedByte (CHR 0x22) (CHR ''x''))\<rparr>)
   \<and> hasError (snd (consume
        \<lparr>json = ''{x"a":1}'', pos = 1, eof = 7, err = Some (ExpectedByte (CHR 0x22) (CHR ''x''))\<rparr>))
   \<and> (case consumeUntilTerminator 8
        \<lparr>json = ''{x"a":1}'', pos = 1, eof = 7, err = Some (ExpectedByte (CHR 0x22) (CHR ''x''))\<rparr>
       of Ret (s, t, d') \<Rightarrow> hasError d' | _ \<Rightarrow> True)\<close>
proof -
  have h: \<open>hasError \<lparr>json = ''{x"a":1}'', pos = 1, eof = 7,
                      err = Some (ExpectedByte (CHR 0x22) (CHR ''x''))\<rparr>\<close>
    by (simp add: hasError_def)
  show ?thesis
    using h scanning_keeps_an_error_set [OF h, of 0 0 "CHR '':''" 8] by blast
qed

section \<open>Escaping and unescaping text\<close>

text \<open>
  On a string of ASCII bytes the \<open>range\<close> loop of \<open>escapeString\<close> visits every byte, and
  the escaped text is the concatenation of the bytes' escapes.
\<close>

lemma runeExtra_ascii: "xs \<noteq> [] \<Longrightarrow> byteval (hd xs) < 128 \<Longrightarrow> runeExtra xs = 0"
  by (cases xs rule: runeExtra.cases) (auto simp: inRange_def byteval_def)

lemma escapeLoop_ascii:
  "\<forall>c \<in> set s. byteval c < 128 \<Longrightarrow>
   escapeLoop s i sb = sb @ concat (map escapeByte (drop i s))"
proof (induction s i sb rule: escapeLoop.induct)
  case (1 s i sb)
  show ?case
  proof (cases "i < length s")
    case True
    then have d: "drop i s = s ! i # drop (Suc i) s"
      by (simp add: Cons_nth_drop_Suc)
    have "byteval (s ! i) < 128" using True "1.prems" by simp
    then have r: "runeExtra (drop i s) = 0"
      using runeExtra_ascii[of "drop i s"] d by simp
    have "escapeLoop s i sb = escapeLoop s (i + 1 + runeExtra (drop i s)) (sb @ escapeByte (s ! i))"
      using True by (subst escapeLoop.simps) simp
    also have "\<dots> = (sb @ escapeByte (s ! i)) @ concat (map escapeByte (drop (i + 1 + runeExtra (drop i s)) s))"
      using "1.IH"[OF True "1.prems"] .
    finally show ?thesis using d r by simp
  next
    case False
    then show ?thesis by (subst escapeLoop.simps) simp
  qed
qed

lemma escapeString_ascii:
  "\<forall>c \<in> set s. byteval c < 128 \<Longrightarrow> escapeString s = concat (map escapeByte s)"
  by (simp add: escapeString_def escapeLoop_ascii)

lemma unescapeLoop_end: "unescapeLoop p (length p) sb = Some sb"
  by (subst unescapeLoop.simps) simp

lemma unescapeLoop_plain:
  "c \<noteq> CHR 0x5C \<Longrightarrow> unescapeLoop (p @ c # r) (length p) sb = unescapeLoop (p @ c # r) (length p + 1) (sb @ [c])"
  by (subst unescapeLoop.simps) (simp add: Let_def)

lemma unescapeLoop_escape:
  "unescapeLoop (p @ CHR 0x5C # ch # r) (length p) sb =
     unescapeLoop (p @ CHR 0x5C # ch # r) (length p + 2)
       (if ch = CHR 0x5C \<or> ch = CHR ''/'' \<or> ch = CHR 0x22 \<or> ch = CHR 0x27 then sb @ [ch]
        else if ch = CHR ''n'' then sb @ [CHR 0x0A]
        else if ch = CHR ''r'' then sb @ [CHR 0x0D]
        else if ch = CHR ''b'' then sb @ [CHR 0x08]
        else if ch = CHR ''t'' then sb @ [CHR 0x09]
        else if ch = CHR ''f'' then sb @ [CHR 0x0C]
        else sb)"
  by (subst unescapeLoop.simps) (simp add: Let_def byteAt_def nth_append)

lemma unescapeLoop_escapeByte:
  "unescapeLoop (p @ escapeByte c @ r) (length p) sb
     = unescapeLoop ((p @ escapeByte c) @ r) (length (p @ escapeByte c)) (sb @ [c])"
proof (cases "c = CHR 0x5C \<or> c = CHR 0x22 \<or> c = CHR ''/'' \<or> c = CHR 0x08 \<or> c = CHR 0x09
              \<or> c = CHR 0x0A \<or> c = CHR 0x0C \<or> c = CHR 0x0D")
  case True
  then show ?thesis
    by (elim disjE) (simp_all add: escapeByte_def unescapeLoop_escape)
next
  case False
  then show ?thesis
    using unescapeLoop_plain[of c p r sb] by (simp add: escapeByte_def)
qed

lemma unescapeLoop_escaped:
  "unescapeLoop (p @ concat (map escapeByte s)) (length p) sb = Some (sb @ s)"
proof (induction s arbitrary: p sb)
  case Nil
  show ?case by (simp add: unescapeLoop_end)
next
  case (Cons c s)
  have "unescapeLoop (p @ concat (map escapeByte (c # s))) (length p) sb
        = unescapeLoop ((p @ escapeByte c) @ concat (map escapeByte s)) (length (p @ escapeByte c)) (sb @ [c])"
    using unescapeLoop_escapeByte[of p c "concat (map escapeByte s)" sb] by simp
  also have "\<dots> = Some ((sb @ [c]) @ s)" by (rule Cons.IH)
  finally show ?case by simp
qed

lemma unescape_escape_ascii:
  "\<forall>c \<in> set s. byteval c < 128 \<Longrightarrow> unescapeString (escapeString s) = Some s"
  using unescapeLoop_escaped[of "[]" s "[]"]
  by (simp add: escapeString_ascii unescapeString_def)

text \<open>
  A scan that starts on a byte \<open>b\<close>, followed by bytes that are no terminators and then
  by a terminator \<open>t\<close>, returns everything before \<open>t\<close> once the step budget covers it.
\<close>

lemma drop_ConsD:
  assumes "drop n xs = y # ys"
  shows "n < length xs" and "xs ! n = y" and "drop (Suc n) xs = ys"
proof -
  show "n < length xs" using assms by (rule_tac ccontr) simp
  show "xs ! n = y" using assms by (rule nth_via_drop)
  have "drop (Suc n) xs = tl (drop n xs)" by (simp add: drop_Suc tl_drop)
  then show "drop (Suc n) xs = ys" using assms by simp
qed

lemma consumeUntilTerminatorLoop_step:
  assumes "eof d = int (length (json d)) - 1"
    and "drop (pos d) (json d) = b # c # rest"
    and "b \<noteq> CHR ''}'' \<and> b \<noteq> CHR '','' \<and> b \<noteq> CHR '']''"
  shows "consumeUntilTerminatorLoop (Suc m) b sb d
      = consumeUntilTerminatorLoop m c (sb @ [b]) (d\<lparr>pos := pos d + 1\<rparr>)"
proof -
  have 1: "pos d < length (json d)" and 2: "drop (Suc (pos d)) (json d) = c # rest"
    using drop_ConsD[OF assms(2)] by simp_all
  have 3: "Suc (pos d) < length (json d)" and 4: "json d ! Suc (pos d) = c"
    using drop_ConsD[OF 2] by simp_all
  show ?thesis
    using assms(1,3) 1 3 4
    by (simp add: consumeUntilTerminatorLoop.simps consume_def peekCurrent_def atEof_def Let_def)
qed

lemma consumeUntilTerminatorLoop_run:
  "eof d = int (length (json d)) - 1 \<Longrightarrow>
   drop (pos d) (json d) = b # body @ t # post \<Longrightarrow>
   b \<noteq> CHR ''}'' \<and> b \<noteq> CHR '','' \<and> b \<noteq> CHR '']'' \<Longrightarrow>
   \<forall>c \<in> set body. c \<noteq> CHR ''}'' \<and> c \<noteq> CHR '','' \<and> c \<noteq> CHR '']'' \<Longrightarrow>
   t = CHR ''}'' \<or> t = CHR '','' \<or> t = CHR '']'' \<Longrightarrow>
   consumeUntilTerminatorLoop (length body + 2 + n) b sb d
     = Ret (sb @ b # body, t, d\<lparr>pos := pos d + length body + 1\<rparr>)"
proof (induction body arbitrary: b sb d)
  case Nil
  have "consumeUntilTerminatorLoop (Suc (Suc n)) b sb d
      = consumeUntilTerminatorLoop (Suc n) t (sb @ [b]) (d\<lparr>pos := pos d + 1\<rparr>)"
    using Nil.prems(1,2,3) by (intro consumeUntilTerminatorLoop_step[where rest = post]) simp_all
  also have "\<dots> = Ret (sb @ [b], t, d\<lparr>pos := pos d + 1\<rparr>)"
    using Nil.prems(5) by (auto simp: consumeUntilTerminatorLoop.simps)
  finally show ?case by simp
next
  case (Cons c body)
  let ?d1 = "d\<lparr>pos := pos d + 1\<rparr>"
  have dr: "drop (pos ?d1) (json ?d1) = c # body @ t # post"
    using drop_ConsD(3)[OF Cons.prems(2)] by simp
  have "consumeUntilTerminatorLoop (Suc (length body + 2 + n)) b sb d
      = consumeUntilTerminatorLoop (length body + 2 + n) c (sb @ [b]) ?d1"
    using Cons.prems(1,2,3)
    by (intro consumeUntilTerminatorLoop_step[where rest = "body @ t # post"]) simp_all
  also have "\<dots> = Ret ((sb @ [b]) @ c # body, t, ?d1\<lparr>pos := pos ?d1 + length body + 1\<rparr>)"
    using Cons.prems(1,4,5) dr by (intro Cons.IH) simp_all
  finally show ?case by simp
qed

lemma escapeByte_bytes:
  "x \<in> set (escapeByte c) \<Longrightarrow> x = c \<or> x \<in> set [CHR 0x5C, CHR ''b'', CHR ''t'', CHR ''n'', CHR ''f'', CHR ''r'']"
  by (auto simp: escapeByte_def split: if_splits)

lemma escaped_no_terminator:
  assumes "\<forall>c \<in> set s. c \<noteq> CHR ''}'' \<and> c \<noteq> CHR '','' \<and> c \<noteq> CHR '']''"
  shows "\<forall>c \<in> set (concat (map escapeByte s)). c \<noteq> CHR ''}'' \<and> c \<noteq> CHR '','' \<and> c \<noteq> CHR '']''"
proof
  fix x assume "x \<in> set (concat (map escapeByte s))"
  then obtain c where c: "c \<in> set s" "x \<in> set (escapeByte c)" by auto
  from escapeByte_bytes[OF c(2)] c(1) assms
  show "x \<noteq> CHR ''}'' \<and> x \<noteq> CHR '','' \<and> x \<noteq> CHR '']''" by auto
qed

lemma parseString_quoted:
  "unescapeString e = Some s \<Longrightarrow> parseString (CHR 0x22 # e @ [CHR 0x22]) = Ret (Inr s)"
  by (simp add: parseString_def byteAt_def nth_append)

lemma Serialize_text_field:
  "Serialize L (VStruct [(''S'', VString s)])
     = Ret ([CHR ''{'', CHR 0x0A, CHR 0x09, CHR 0x22, CHR ''S'', CHR 0x22, CHR '':'', CHR '' '', CHR 0x22]
            @ escapeString s @ [CHR 0x22, CHR 0x0A, CHR ''}''])"
  by (simp add: makeSerializer_def WriteString_def appendTabs_def startObject_def endObject_def
      appendKey_def serialize_def Serialize_def serializeObject.simps serializeFields.simps bindRes_def)

lemma Deserialize_text_field:
  assumes esc: "unescapeString e = Some s"
    and nt: "\<forall>c \<in> set e. c \<noteq> CHR ''}'' \<and> c \<noteq> CHR '','' \<and> c \<noteq> CHR '']''"
  shows "Deserialize (length e + 5 + n) L
           ([CHR ''{'', CHR 0x0A, CHR 0x09, CHR 0x22, CHR ''S'', CHR 0x22, CHR '':'', CHR '' '', CHR 0x22]
              @ e @ [CHR 0x22, CHR 0x0A, CHR ''}''])
           (VStruct [(''S'', VString s0)])
         = Ret (None, VStruct [(''S'', VString s)])"
proof -
  define T where "T = [CHR ''{'', CHR 0x0A, CHR 0x09, CHR 0x22, CHR ''S'', CHR 0x22, CHR '':'', CHR '' '', CHR 0x22]
              @ e @ [CHR 0x22, CHR 0x0A, CHR ''}'']"
  define D where "D p = \<lparr>json = T, pos = p, eof = int (length T) - 1, err = None\<rparr>" for p
  define m where "m = length e + 3 + n"
  let ?v0 = "VStruct [(''S'', VString s0)]"
  let ?v1 = "VStruct [(''S'', VString s)]"
  have s1: "deserializeObject (Suc (Suc m)) L ?v0 (makeDeserializer T) = objectLoop (Suc (Suc m)) L ?v0 (D 3)"
    by (simp add: deserializeObject.simps makeDeserializer_def consumeByte_def consume_def atEof_def
        hasError_def consumeWhitespace.simps isWhitespace_def D_def T_def Let_def eval_nat_numeral)
  have noerr: "\<not> hasError (D p)" for p
    by (simp add: hasError_def D_def)
  have s0: "peekCurrent (D 3) = (CHR 0x22, D 3)"
    by (simp add: peekCurrent_def atEof_def D_def T_def eval_nat_numeral)
  have s2: "consumeKey (D 3) = (''S'', D 8)"
    by (simp add: consumeKey_def consumeUntil_def consumeUntilLoop.simps consumeByte_def consume_def
        atEof_def consumeWhitespace.simps isWhitespace_def D_def T_def Let_def eval_nat_numeral)
  have s3: "peekCurrent (D 8) = (CHR 0x22, D 8)"
    by (simp add: peekCurrent_def atEof_def D_def T_def eval_nat_numeral)
  have s4: "isPrimitiveAhead (D 8) = (True, D 8)" "parsePrimitiveType (D 8) = (Inr String, D 8)"
    by (simp_all add: isPrimitiveAhead_def parsePrimitiveType_def isWhitespace_def s3)
  have fuel: "length (e @ [CHR 0x22, CHR 0x0A]) + 2 + n = Suc m"
    by (simp add: m_def)
  have "consumeUntilTerminatorLoop (length (e @ [CHR 0x22, CHR 0x0A]) + 2 + n) (CHR 0x22) [] (D 8)
        = Ret ([] @ CHR 0x22 # (e @ [CHR 0x22, CHR 0x0A]), CHR ''}'',
               (D 8)\<lparr>pos := pos (D 8) + length (e @ [CHR 0x22, CHR 0x0A]) + 1\<rparr>)"
    using nt by (intro consumeUntilTerminatorLoop_run[where post = "[]"])
      (simp_all add: D_def T_def eval_nat_numeral)
  then have loop: "consumeUntilTerminatorLoop (Suc m) (CHR 0x22) [] (D 8)
        = Ret (CHR 0x22 # e @ [CHR 0x22, CHR 0x0A], CHR ''}'', D (length e + 11))"
    unfolding fuel by (simp add: D_def add.commute)
  have s5: "consumeUntilTerminator (Suc m) (D 8)
        = Ret (CHR 0x22 # e @ [CHR 0x22], CHR ''}'', D (length e + 11))"
    by (simp add: consumeUntilTerminator_def s3 loop TrimRight_def)
  have s6: "objectPrimitive (Suc m) L ?v0 ''S'' (VString s0) (D 8) = Ret (False, ?v1, D (length e + 11))"
    by (simp add: objectPrimitive_def s4 s5 bindRes_def objectStore_def parseString_quoted[OF esc])
  have s7: "objectField (Suc m) L ?v0 ''S'' (VString s0) (D 8) = Ret (False, ?v1, D (length e + 11))"
    by (simp add: objectField.simps s3 s4 s6)
  have s8: "peekCurrent (D (length e + 11)) = (CHR ''}'', D (length e + 11))"
    by (simp add: peekCurrent_def atEof_def D_def T_def nth_append eval_nat_numeral)
  have s9: "consumeWhitespace (D (length e + 11)) = D (length e + 11)"
    by (subst consumeWhitespace.simps)
       (simp add: atEof_def isWhitespace_def D_def T_def nth_append eval_nat_numeral)
  have s10: "objectLoop (Suc m) L ?v1 (D (length e + 11)) = Ret (?v1, D (length e + 12))"
    apply (subst objectLoop.simps)
    apply (simp add: s8 s9)
    apply (simp add: consumeByte_def consume_def atEof_def D_def T_def nth_append eval_nat_numeral)
    done
  have s11: "objectLoop (Suc (Suc m)) L ?v0 (D 3) = Ret (?v1, D (length e + 12))"
    by (subst objectLoop.simps) (simp add: s0 s2 s7 s9 s10 bindRes_def noerr)
  have "Deserialize (Suc (Suc m)) L T ?v0 = Ret (None, ?v1)"
    by (simp add: Deserialize_def deserialize_def s1 s11 bindRes_def noerr)
  moreover have "Suc (Suc m) = length e + 5 + n" by (simp add: m_def)
  ultimately show ?thesis by (simp add: T_def)
qed

text \<open>
  C7, as stated, fails on the code: the comma is an ordinary byte, and the record whose
  text field holds \<open>a,b\<close> does not come back. The scan for the end of a value stops at
  the first \<open>,\<close>, \<open>}\<close> or \<open>]\<close>, also inside a string.
\<close>

theorem text_round_trip_counterexample:
  \<open>Serialize exampleLib (VStruct [(''S'', VString ''a,b'')])
     = Ret (''{'' @ [CHR 0x0A, CHR 0x09] @ ''"S": "a,b"'' @ [CHR 0x0A] @ ''}'')
   \<and> Deserialize 20 exampleLib (''{'' @ [CHR 0x0A, CHR 0x09] @ ''"S": "a,b"'' @ [CHR 0x0A] @ ''}'')
        (VStruct [(''S'', VString [])])
     = Ret (Some (ExpectedStringEnd (CHR ''a'')), VStruct [(''S'', VString [])])\<close>
proof
  show \<open>Serialize exampleLib (VStruct [(''S'', VString ''a,b'')])
     = Ret (''{'' @ [CHR 0x0A, CHR 0x09] @ ''"S": "a,b"'' @ [CHR 0x0A] @ ''}'')\<close>
    by (simp add: ser_defs escape_defs bindRes_def byteval_def)
  show \<open>Deserialize 20 exampleLib (''{'' @ [CHR 0x0A, CHR 0x09] @ ''"S": "a,b"'' @ [CHR 0x0A] @ ''}'')
        (VStruct [(''S'', VString [])])
     = Ret (Some (ExpectedStringEnd (CHR ''a'')), VStruct [(''S'', VString [])])\<close>
    by (simp add: cursor_defs parse_defs walk_defs loop_simps eval_nat_numeral Let_def)
qed

text \<open>
  C7 (amended). For every string \<open>s\<close> of ASCII bytes (ordinary bytes below 128,
  backslash, double quote, backspace, tab, newline, form feed and carriage return
  included), the deserializer's unescape function undoes the serializer's escape
  function on \<open>s\<close>; and when \<open>s\<close> moreover contains none of the bytes \<open>,\<close>, \<open>}\<close>, \<open>]\<close>,
  serializing a record whose text field holds \<open>s\<close> and deserializing the output, with a
  step budget of at least the length of the text, recovers \<open>s\<close> exactly and without error.
\<close>

theorem text_round_trip_ascii:
  assumes "\<forall>c \<in> set s. byteval c < 128"
  shows "unescapeString (escapeString s) = Some s
    \<and> ((\<forall>c \<in> set s. c \<noteq> CHR ''}'' \<and> c \<noteq> CHR '','' \<and> c \<noteq> CHR '']'') \<longrightarrow>
        (case Serialize L (VStruct [(''S'', VString s)]) of
           Ret text \<Rightarrow> Deserialize (length text + n) L text (VStruct [(''S'', VString s0)])
                         = Ret (None, VStruct [(''S'', VString s)])
         | _ \<Rightarrow> False))"
proof (intro conjI impI)
  show ue: "unescapeString (escapeString s) = Some s"
    by (rule unescape_escape_ascii[OF assms])
  assume nt: "\<forall>c \<in> set s. c \<noteq> CHR ''}'' \<and> c \<noteq> CHR '','' \<and> c \<noteq> CHR '']''"
  have nte: "\<forall>c \<in> set (escapeString s). c \<noteq> CHR ''}'' \<and> c \<noteq> CHR '','' \<and> c \<noteq> CHR '']''"
    using escaped_no_terminator[OF nt] by (simp add: escapeString_ascii[OF assms])
  let ?T = "[CHR ''{'', CHR 0x0A, CHR 0x09, CHR 0x22, CHR ''S'', CHR 0x22, CHR '':'', CHR '' '', CHR 0x22]
            @ escapeString s @ [CHR 0x22, CHR 0x0A, CHR ''}'']"
  have len: "length ?T + n = length (escapeString s) + 5 + (7 + n)"
    by simp
  have "Deserialize (length ?T + n) L ?T (VStruct [(''S'', VString s0)])
          = Ret (None, VStruct [(''S'', VString s)])"
    unfolding len by (rule Deserialize_text_field[OF ue nte])
  then show "case Serialize L (VStruct [(''S'', VString s)]) of
           Ret text \<Rightarrow> Deserialize (length text + n) L text (VStruct [(''S'', VString s0)])
                         = Ret (None, VStruct [(''S'', VString s)])
         | _ \<Rightarrow> False"
    by (simp add: Serialize_text_field)
qed

theorem text_round_trip_ascii_witness:
  \<open>unescapeString (escapeString [CHR ''a'', CHR 0x22, CHR 0x5C, CHR 0x09, CHR ''/'', CHR ''b''])
       = Some [CHR ''a'', CHR 0x22, CHR 0x5C, CHR 0x09, CHR ''/'', CHR ''b'']
   \<and> (case Serialize exampleLib
            (VStruct [(''S'', VString [CHR ''a'', CHR 0x22, CHR 0x5C, CHR 0x09, CHR ''/'', CHR ''b''])]) of
         Ret text \<Rightarrow> Deserialize (length text + 0) exampleLib text (VStruct [(''S'', VString [])])
                       = Ret (None, VStruct [(''S'', VString [CHR ''a'', CHR 0x22, CHR 0x5C, CHR 0x09, CHR ''/'', CHR ''b''])])
       | _ \<Rightarrow> False)\<close>
proof -
  have h1: \<open>\<forall>c \<in> set [CHR ''a'', CHR 0x22, CHR 0x5C, CHR 0x09, CHR ''/'', CHR ''b'']. byteval c < 128\<close>
    by (simp add: byteval_def)
  have h2: \<open>\<forall>c \<in> set [CHR ''a'', CHR 0x22, CHR 0x5C, CHR 0x09, CHR ''/'', CHR ''b''].
         c \<noteq> CHR ''}'' \<and> c \<noteq> CHR '','' \<and> c \<noteq> CHR '']''\<close>
    by simp
  show ?thesis
    using h2 text_round_trip_ascii [OF h1, where L = exampleLib and n = 0 and ?s0.0 = "[]"]
    by blast
qed

end
